theory Spec2Isabelle
  imports Main "HOL-Library.Word"
begin

section \<open>The boundary between the host script and the native runtime\<close>

text \<open>
  \<^verbatim>\<open>src/api/MonoAssembly.ts\<close> binds the assembly functions of the Mono embedding API.
  Every method of the class is a short sequence of effects: scratch allocations through
  Frida's \<^verbatim>\<open>Memory\<close>, calls of bridged native functions, at most one read of a status
  slot, and then either a \<^verbatim>\<open>throw\<close> or a \<^verbatim>\<open>return\<close>. The model threads a world
  through these effects and records each of them in a trace, so that what a method did
  (and in which order) can be stated.

  A \<^verbatim>\<open>NativePointer\<close> is an address; no method computes with addresses, so the pointer
  width plays no role and an address is a natural number. \<^verbatim>\<open>isNull\<close> tests for 0.
\<close>

type_synonym NativePointer = nat

definition isNull :: "NativePointer \<Rightarrow> bool" where
  "isNull p = (p = 0)"

text \<open>
  Native memory, as far as the methods and the native functions exchange data through
  it: the buffers that hold a null-terminated UTF-8 string (a \<open>string\<close> is the sequence
  of UTF-8 bytes, the terminator is implied), and the 32-bit integer that
  \<^verbatim>\<open>readInt\<close> finds at an address.
\<close>

record memory =
  utf8 :: "NativePointer \<rightharpoonup> string"
  int32 :: "NativePointer \<Rightarrow> 32 word"

text \<open>The values a bridged call takes: \<^verbatim>\<open>'pointer'\<close> and \<^verbatim>\<open>'bool'\<close> arguments.\<close>

datatype nvalue = VPointer NativePointer | VBool bool

fun marshal :: "nvalue \<Rightarrow> nat" where
  "marshal (VPointer p) = p"
| "marshal (VBool b) = (if b then 1 else 0)"

datatype event =
    AllocUtf8String string NativePointer
  | Alloc nat NativePointer
  | NativeCall string "nvalue list" nat
  | ReadInt NativePointer

text \<open>
  The world: native memory, the state of the native runtime (of any type \<open>'n\<close>), the
  scratch allocator's next free address, and the trace of effects so far.
\<close>

record 'n world =
  mem :: memory
  native :: 'n
  brk :: nat
  trace :: "event list"

datatype arch = Arch32 | Arch64

text \<open>
  What the class is given from outside. \<open>runtime\<close> is the native library: the behaviour
  of each symbol on the marshalled arguments, reading and writing native memory and its
  own state and returning one machine word. \<open>MonoImageOpenStatus\<close> is the enumeration
  imported from module \<^verbatim>\<open>core\<close>, whose declaration is not part of the class: the table
  from a numeric value to the member's name that indexing the enumeration object with a
  number consults. \<open>process_arch\<close> fixes \<^verbatim>\<open>Process.pointerSize\<close>.
\<close>

record 'n env =
  runtime :: "string \<Rightarrow> nat list \<Rightarrow> memory \<times> 'n \<Rightarrow> nat \<times> (memory \<times> 'n)"
  MonoImageOpenStatus :: "int \<rightharpoonup> string"
  process_arch :: arch

definition pointerSize :: "'n env \<Rightarrow> nat" where
  "pointerSize env = (case process_arch env of Arch32 \<Rightarrow> 4 | Arch64 \<Rightarrow> 8)"

subsection \<open>Scratch allocation and the status read\<close>

text \<open>
  Modelled from the spec: \<^verbatim>\<open>Memory.alloc\<close>, \<^verbatim>\<open>Memory.allocUtf8String\<close> and
  \<^verbatim>\<open>readInt\<close> are primitives of the host environment (section 4.2, Scratch Allocator:
  \<^verbatim>\<open>allocate(size) -> address\<close> and \<^verbatim>\<open>allocateEncodedString(text) -> address\<close>, UTF-8
  with a terminating null, no explicit free). Each allocation takes the address at
  the allocator's mark \<open>brk\<close> and moves the mark past the block. Reclaiming is the
  host's business and happens between the effects modelled here: a world in which
  memory has been reclaimed is a world whose mark stands lower. The claims about
  the class below hold from every world, wherever its mark stands, and none of them
  rests on an address being new.
\<close>

definition Memory_alloc :: "nat \<Rightarrow> 'n world \<Rightarrow> NativePointer \<times> 'n world" where
  "Memory_alloc n w =
     (brk w, w\<lparr>brk := brk w + n, trace := trace w @ [Alloc n (brk w)]\<rparr>)"

definition Memory_allocUtf8String :: "string \<Rightarrow> 'n world \<Rightarrow> NativePointer \<times> 'n world" where
  "Memory_allocUtf8String s w =
     (brk w,
      w\<lparr>mem := (mem w)\<lparr>utf8 := (utf8 (mem w))(brk w \<mapsto> s)\<rparr>,
        brk := brk w + length s + 1,
        trace := trace w @ [AllocUtf8String s (brk w)]\<rparr>)"

definition readInt :: "NativePointer \<Rightarrow> 'n world \<Rightarrow> int \<times> 'n world" where
  "readInt p w = (sint (int32 (mem w) p), w\<lparr>trace := trace w @ [ReadInt p]\<rparr>)"

subsection \<open>The native call bridge\<close>

datatype ntype = T_void | T_pointer | T_bool

record NativeFunctionDescriptor =
  symbol :: string
  returnType :: ntype
  argumentTypes :: "ntype list"

text \<open>
  Modelled from the spec: \<^verbatim>\<open>createNativeFunction\<close> of module \<^verbatim>\<open>core\<close> is missing from
  the sources. Section 4.1: a symbol name and a signature give a callable that performs
  the cross-boundary invocation; the bridge keeps no state between calls. Calling the
  callable is \<open>invoke\<close>: the runtime's behaviour for the symbol, on the marshalled
  arguments; the word returned is the \<^verbatim>\<open>NativePointer\<close> of a \<^verbatim>\<open>'pointer'\<close> function.
\<close>

definition createNativeFunction :: "string \<Rightarrow> ntype \<Rightarrow> ntype list \<Rightarrow> NativeFunctionDescriptor" where
  "createNativeFunction n r as = \<lparr>symbol = n, returnType = r, argumentTypes = as\<rparr>"

definition invoke :: "'n env \<Rightarrow> NativeFunctionDescriptor \<Rightarrow> nvalue list \<Rightarrow> 'n world \<Rightarrow> nat \<times> 'n world" where
  "invoke env f args w =
     (case runtime env (symbol f) (map marshal args) (mem w, native w) of
        (r, (m, n)) \<Rightarrow>
          (r, w\<lparr>mem := m, native := n, trace := trace w @ [NativeCall (symbol f) args r]\<rparr>))"

definition mono_assembly_name_new :: NativeFunctionDescriptor where
  "mono_assembly_name_new = createNativeFunction ''mono_assembly_name_new'' T_pointer [T_pointer]"

definition mono_assembly_close :: NativeFunctionDescriptor where
  "mono_assembly_close = createNativeFunction ''mono_assembly_close'' T_void [T_pointer]"

definition mono_assembly_load :: NativeFunctionDescriptor where
  "mono_assembly_load =
     createNativeFunction ''mono_assembly_load'' T_pointer [T_pointer, T_pointer, T_pointer]"

definition mono_assembly_load_full :: NativeFunctionDescriptor where
  "mono_assembly_load_full =
     createNativeFunction ''mono_assembly_load_full'' T_pointer
       [T_pointer, T_pointer, T_pointer, T_bool]"

definition mono_assembly_loaded :: NativeFunctionDescriptor where
  "mono_assembly_loaded = createNativeFunction ''mono_assembly_loaded'' T_pointer [T_pointer]"

definition mono_assembly_load_from :: NativeFunctionDescriptor where
  "mono_assembly_load_from =
     createNativeFunction ''mono_assembly_load_from'' T_pointer [T_pointer, T_pointer, T_pointer]"

definition mono_assembly_load_from_full :: NativeFunctionDescriptor where
  "mono_assembly_load_from_full =
     createNativeFunction ''mono_assembly_load_from_full'' T_pointer
       [T_pointer, T_pointer, T_pointer, T_bool]"

definition mono_assembly_load_with_partial_name :: NativeFunctionDescriptor where
  "mono_assembly_load_with_partial_name =
     createNativeFunction ''mono_assembly_load_with_partial_name'' T_pointer
       [T_pointer, T_pointer]"

subsection \<open>Facades, errors and the status lookup\<close>

record MonoBase =
  address :: NativePointer

type_synonym MonoAssembly = MonoBase
type_synonym MonoImage = MonoBase

text \<open>
  Modelled from the spec: \<^verbatim>\<open>fromAddress\<close> is inherited from \<^verbatim>\<open>MonoBase\<close>, which is
  missing from the sources. Section 4.3: it constructs a wrapper around an existing
  address with no native call (pure local construction) and no validation of the
  address.
\<close>

definition fromAddress :: "NativePointer \<Rightarrow> MonoBase" where
  "fromAddress a = \<lparr>address = a\<rparr>"

datatype error = Error string

text \<open>
  \<^verbatim>\<open>MonoImageOpenStatus[n]\<close> indexes the enumeration object with a number: the member's
  name where \<open>n\<close> is the value of a member, and \<^verbatim>\<open>undefined\<close> otherwise. The \<^verbatim>\<open>+\<close>
  of a string and such a value appends the name, or the text \<^verbatim>\<open>undefined\<close>.
\<close>

datatype jsvalue = JSString string | JSUndefined

definition index_enum :: "(int \<rightharpoonup> string) \<Rightarrow> int \<Rightarrow> jsvalue" where
  "index_enum e n = (case e n of Some l \<Rightarrow> JSString l | None \<Rightarrow> JSUndefined)"

fun js_concat :: "string \<Rightarrow> jsvalue \<Rightarrow> string" where
  "js_concat s (JSString t) = s @ t"
| "js_concat s JSUndefined = s @ ''undefined''"

section \<open>The class MonoAssembly\<close>

text \<open>
  Every method is translated statement by statement, the world passed from one effect
  to the next in the order in which the script evaluates them (the arguments of a call
  from left to right, before the call). A \<^verbatim>\<open>throw\<close> is the result \<open>Inl\<close>, a
  \<^verbatim>\<open>return\<close> the result \<open>Inr\<close>.

  \<^verbatim>\<open>close(): void { mono_assembly_close(this.$address) }\<close>
  has no \<^verbatim>\<open>return\<close>: what the native call gives is dropped and the call of
  \<open>close\<close> evaluates to \<^verbatim>\<open>undefined\<close>. It is a method of the facade: the model gives
  it \<^verbatim>\<open>this\<close> and hands back, beside the value of the call, the receiver as the
  method leaves it.
\<close>

definition close :: "'n env \<Rightarrow> MonoAssembly \<Rightarrow> 'n world \<Rightarrow> (jsvalue \<times> MonoAssembly) \<times> 'n world" where
  "close env this w =
     (case invoke env mono_assembly_close [VPointer (address this)] w of
        (_, w1) \<Rightarrow> ((JSUndefined, this), w1))"

text \<open>
  \<^verbatim>\<open>static load(name, basedir) {
    const monoAssemblyName = mono_assembly_name_new(Memory.allocUtf8String(name))
    const status = Memory.alloc(Process.pointerSize)
    const address = mono_assembly_load(monoAssemblyName, Memory.allocUtf8String(basedir), status)
    if (address.isNull()) {
      throw new Error('Failed loading MonoAssembly! Error: ' + MonoImageOpenStatus[status.readInt()])
    }
    return MonoAssembly.fromAddress(address)
  }\<close>
  \<open>loadFull\<close> is the same with \<^verbatim>\<open>mono_assembly_load_full\<close> and the flag \<open>refOnly\<close> as a
  fourth argument.
\<close>

definition load :: "'n env \<Rightarrow> string \<Rightarrow> string \<Rightarrow> 'n world \<Rightarrow> (error + MonoAssembly) \<times> 'n world" where
  "load env name basedir w =
     (case Memory_allocUtf8String name w of (pn, w1) \<Rightarrow>
      case invoke env mono_assembly_name_new [VPointer pn] w1 of (monoAssemblyName, w2) \<Rightarrow>
      case Memory_alloc (pointerSize env) w2 of (status, w3) \<Rightarrow>
      case Memory_allocUtf8String basedir w3 of (pb, w4) \<Rightarrow>
      case invoke env mono_assembly_load
             [VPointer monoAssemblyName, VPointer pb, VPointer status] w4 of (addr, w5) \<Rightarrow>
      if isNull addr then
        (case readInt status w5 of (code, w6) \<Rightarrow>
           (Inl (Error (js_concat ''Failed loading MonoAssembly! Error: ''
                          (index_enum (MonoImageOpenStatus env) code))), w6))
      else (Inr (fromAddress addr), w5))"

definition loadFull :: "'n env \<Rightarrow> string \<Rightarrow> string \<Rightarrow> bool \<Rightarrow> 'n world \<Rightarrow> (error + MonoAssembly) \<times> 'n world" where
  "loadFull env name basedir refOnly w =
     (case Memory_allocUtf8String name w of (pn, w1) \<Rightarrow>
      case invoke env mono_assembly_name_new [VPointer pn] w1 of (monoAssemblyName, w2) \<Rightarrow>
      case Memory_alloc (pointerSize env) w2 of (status, w3) \<Rightarrow>
      case Memory_allocUtf8String basedir w3 of (pb, w4) \<Rightarrow>
      case invoke env mono_assembly_load_full
             [VPointer monoAssemblyName, VPointer pb, VPointer status, VBool refOnly] w4 of
        (addr, w5) \<Rightarrow>
      if isNull addr then
        (case readInt status w5 of (code, w6) \<Rightarrow>
           (Inl (Error (js_concat ''Failed loading MonoAssembly! Error: ''
                          (index_enum (MonoImageOpenStatus env) code))), w6))
      else (Inr (fromAddress addr), w5))"

text \<open>
  \<^verbatim>\<open>static loaded(name) {
    const monoAssemblyName = mono_assembly_name_new(Memory.allocUtf8String(name))
    const address = mono_assembly_loaded(monoAssemblyName)
    return MonoAssembly.fromAddress(address)
  }\<close>
\<close>

definition loaded :: "'n env \<Rightarrow> string \<Rightarrow> 'n world \<Rightarrow> (error + MonoAssembly) \<times> 'n world" where
  "loaded env name w =
     (case Memory_allocUtf8String name w of (pn, w1) \<Rightarrow>
      case invoke env mono_assembly_name_new [VPointer pn] w1 of (monoAssemblyName, w2) \<Rightarrow>
      case invoke env mono_assembly_loaded [VPointer monoAssemblyName] w2 of (addr, w3) \<Rightarrow>
      (Inr (fromAddress addr), w3))"

text \<open>
  \<^verbatim>\<open>static loadFrom(image, name) {
    const status = Memory.alloc(Process.pointerSize)
    const address = mono_assembly_load_from(image.$address, Memory.allocUtf8String(name), status)
    ... the same branch ...
  }\<close>
  \<open>loadFromFull\<close> passes \<open>refOnly\<close> as a fourth argument to
  \<^verbatim>\<open>mono_assembly_load_from_full\<close>; \<open>loadWithPartialName\<close> calls
  \<^verbatim>\<open>mono_assembly_load_with_partial_name(Memory.allocUtf8String(name), status)\<close>.
\<close>

definition loadFrom :: "'n env \<Rightarrow> MonoImage \<Rightarrow> string \<Rightarrow> 'n world \<Rightarrow> (error + MonoAssembly) \<times> 'n world" where
  "loadFrom env img name w =
     (case Memory_alloc (pointerSize env) w of (status, w1) \<Rightarrow>
      case Memory_allocUtf8String name w1 of (pn, w2) \<Rightarrow>
      case invoke env mono_assembly_load_from
             [VPointer (address img), VPointer pn, VPointer status] w2 of (addr, w3) \<Rightarrow>
      if isNull addr then
        (case readInt status w3 of (code, w4) \<Rightarrow>
           (Inl (Error (js_concat ''Failed loading MonoAssembly! Error: ''
                          (index_enum (MonoImageOpenStatus env) code))), w4))
      else (Inr (fromAddress addr), w3))"

definition loadFromFull :: "'n env \<Rightarrow> MonoImage \<Rightarrow> string \<Rightarrow> bool \<Rightarrow> 'n world \<Rightarrow> (error + MonoAssembly) \<times> 'n world" where
  "loadFromFull env img name refOnly w =
     (case Memory_alloc (pointerSize env) w of (status, w1) \<Rightarrow>
      case Memory_allocUtf8String name w1 of (pn, w2) \<Rightarrow>
      case invoke env mono_assembly_load_from_full
             [VPointer (address img), VPointer pn, VPointer status, VBool refOnly] w2 of
        (addr, w3) \<Rightarrow>
      if isNull addr then
        (case readInt status w3 of (code, w4) \<Rightarrow>
           (Inl (Error (js_concat ''Failed loading MonoAssembly! Error: ''
                          (index_enum (MonoImageOpenStatus env) code))), w4))
      else (Inr (fromAddress addr), w3))"

definition loadWithPartialName :: "'n env \<Rightarrow> string \<Rightarrow> 'n world \<Rightarrow> (error + MonoAssembly) \<times> 'n world" where
  "loadWithPartialName env name w =
     (case Memory_alloc (pointerSize env) w of (status, w1) \<Rightarrow>
      case Memory_allocUtf8String name w1 of (pn, w2) \<Rightarrow>
      case invoke env mono_assembly_load_with_partial_name
             [VPointer pn, VPointer status] w2 of (addr, w3) \<Rightarrow>
      if isNull addr then
        (case readInt status w3 of (code, w4) \<Rightarrow>
           (Inl (Error (js_concat ''Failed loading MonoAssembly! Error: ''
                          (index_enum (MonoImageOpenStatus env) code))), w4))
      else (Inr (fromAddress addr), w3))"

section \<open>Vocabulary for the statements\<close>

text \<open>The effects of one invocation: what the trace gained between two worlds.\<close>

definition events_since :: "'n world \<Rightarrow> 'n world \<Rightarrow> event list" where
  "events_since w w' = drop (length (trace w)) (trace w')"

text \<open>
  Observations of a run: the strings it encoded (alone, and with the addresses of their
  buffers), the raw blocks it allocated (size and address), the addresses read with
  \<^verbatim>\<open>readInt\<close>, the words its native calls returned, and the pointers among the
  arguments of a call.
\<close>

fun encoded :: "event list \<Rightarrow> string list" where
  "encoded [] = []"
| "encoded (AllocUtf8String s p # es) = s # encoded es"
| "encoded (e # es) = encoded es"

fun slots :: "event list \<Rightarrow> (nat \<times> NativePointer) list" where
  "slots [] = []"
| "slots (Alloc n p # es) = (n, p) # slots es"
| "slots (e # es) = slots es"

fun status_reads :: "event list \<Rightarrow> NativePointer list" where
  "status_reads [] = []"
| "status_reads (ReadInt p # es) = p # status_reads es"
| "status_reads (e # es) = status_reads es"

fun returned :: "event list \<Rightarrow> nat list" where
  "returned [] = []"
| "returned (NativeCall s as r # es) = r # returned es"
| "returned (e # es) = returned es"

fun pointers :: "nvalue list \<Rightarrow> NativePointer list" where
  "pointers [] = []"
| "pointers (VPointer p # vs) = p # pointers vs"
| "pointers (VBool b # vs) = pointers vs"

fun encodings :: "event list \<Rightarrow> (string \<times> NativePointer) list" where
  "encodings [] = []"
| "encodings (AllocUtf8String s p # es) = (s, p) # encodings es"
| "encodings (e # es) = encodings es"

text \<open>
  What the events of a trace mean for native memory and the native runtime. An encoding
  stores the string at its address; a native call is the runtime's behaviour for the
  symbol on the marshalled arguments; a raw allocation and a read change nothing. A
  logged call is honest in a state when the word it logs is the word the runtime
  returns there. \<open>replay\<close> runs a trace from a state and gives the state it ends in,
  provided every logged call is honest where it stands.
\<close>

fun effect :: "'n env \<Rightarrow> event \<Rightarrow> memory \<times> 'n \<Rightarrow> memory \<times> 'n" where
  "effect env (AllocUtf8String str p) s = ((fst s)\<lparr>utf8 := (utf8 (fst s))(p \<mapsto> str)\<rparr>, snd s)"
| "effect env (Alloc k p) s = s"
| "effect env (NativeCall f as r) s = snd (runtime env f (map marshal as) s)"
| "effect env (ReadInt p) s = s"

fun honest :: "'n env \<Rightarrow> event \<Rightarrow> memory \<times> 'n \<Rightarrow> bool" where
  "honest env (NativeCall f as r) s = (fst (runtime env f (map marshal as) s) = r)"
| "honest env e s = True"

fun replay :: "'n env \<Rightarrow> event list \<Rightarrow> memory \<times> 'n \<Rightarrow> (memory \<times> 'n) option" where
  "replay env [] s = Some s"
| "replay env (e # es) s = (if honest env e s then replay env es (effect env e s) else None)"

definition faithful :: "'n env \<Rightarrow> 'n world \<Rightarrow> 'n world \<Rightarrow> bool" where
  "faithful env w w' =
     (trace w' = trace w @ events_since w w' \<and>
      replay env (events_since w w') (mem w, native w) = Some (mem w', native w'))"

text \<open>
  What the native calls of a trace were handed: for every pointer argument of every
  call, the address and the string that the address held at the moment of the call.
\<close>

fun delivered :: "'n env \<Rightarrow> event list \<Rightarrow> memory \<times> 'n \<Rightarrow> (NativePointer \<times> string option) list" where
  "delivered env [] s = []"
| "delivered env (NativeCall f as r # es) s =
     map (\<lambda>p. (p, utf8 (fst s) p)) (pointers as) @
     delivered env es (effect env (NativeCall f as r) s)"
| "delivered env (e # es) s = delivered env es (effect env e s)"

text \<open>
  A trace is scoped over the addresses \<open>known\<close> when every pointer it passes to a native
  call, and every address it reads, is known at that moment: known from the start, or
  handed out by an allocation or returned by a native call earlier in the same trace.
\<close>

fun scoped :: "NativePointer list \<Rightarrow> event list \<Rightarrow> bool" where
  "scoped known [] = True"
| "scoped known (AllocUtf8String s p # es) = scoped (p # known) es"
| "scoped known (Alloc n p # es) = scoped (p # known) es"
| "scoped known (NativeCall f as r # es) =
     (set (pointers as) \<subseteq> set known \<and> scoped (r # known) es)"
| "scoped known (ReadInt p # es) = (p \<in> set known \<and> scoped known es)"

text \<open>
  The control skeleton of a run forgets addresses and contents: a string encoded, a
  block allocated, a symbol invoked (with the boolean flags it was given), the status
  read.
\<close>

datatype step = Encode | Slot | Invoke string "bool list" | ReadStatus

fun flags :: "nvalue list \<Rightarrow> bool list" where
  "flags [] = []"
| "flags (VBool b # vs) = b # flags vs"
| "flags (VPointer p # vs) = flags vs"

fun step_of :: "event \<Rightarrow> step" where
  "step_of (AllocUtf8String s p) = Encode"
| "step_of (Alloc n p) = Slot"
| "step_of (NativeCall s as r) = Invoke s (flags as)"
| "step_of (ReadInt p) = ReadStatus"

definition skeleton :: "'n world \<Rightarrow> 'n world \<Rightarrow> step list" where
  "skeleton w w' = map step_of (events_since w w')"

text \<open>The load family as one operation on a request, to speak about all five at once.\<close>

datatype request =
    Load string string
  | LoadFull string string bool
  | LoadFrom MonoImage string
  | LoadFromFull MonoImage string bool
  | LoadWithPartialName string

fun perform :: "'n env \<Rightarrow> request \<Rightarrow> 'n world \<Rightarrow> (error + MonoAssembly) \<times> 'n world" where
  "perform env (Load name basedir) w = load env name basedir w"
| "perform env (LoadFull name basedir refOnly) w = loadFull env name basedir refOnly w"
| "perform env (LoadFrom img name) w = loadFrom env img name w"
| "perform env (LoadFromFull img name refOnly) w = loadFromFull env img name refOnly w"
| "perform env (LoadWithPartialName name) w = loadWithPartialName env name w"

fun string_inputs :: "request \<Rightarrow> string list" where
  "string_inputs (Load name basedir) = [name, basedir]"
| "string_inputs (LoadFull name basedir refOnly) = [name, basedir]"
| "string_inputs (LoadFrom img name) = [name]"
| "string_inputs (LoadFromFull img name refOnly) = [name]"
| "string_inputs (LoadWithPartialName name) = [name]"

fun native_symbol :: "request \<Rightarrow> string" where
  "native_symbol (Load name basedir) = ''mono_assembly_load''"
| "native_symbol (LoadFull name basedir refOnly) = ''mono_assembly_load_full''"
| "native_symbol (LoadFrom img name) = ''mono_assembly_load_from''"
| "native_symbol (LoadFromFull img name refOnly) = ''mono_assembly_load_from_full''"
| "native_symbol (LoadWithPartialName name) = ''mono_assembly_load_with_partial_name''"

text \<open>The native handles a request brings along: the address of the image facade.\<close>

fun handle_inputs :: "request \<Rightarrow> NativePointer list" where
  "handle_inputs (LoadFrom img name) = [address img]"
| "handle_inputs (LoadFromFull img name refOnly) = [address img]"
| "handle_inputs q = []"

section \<open>A simulated native layer\<close>

text \<open>
  For the scenarios of the spec (section 8), a native layer is simulated. Its state is
  the address of the assembly loaded last (0 when none is). Every loading symbol answers
  with the address \<open>ret\<close> and leaves \<open>code\<close> to be read at every address;
  \<^verbatim>\<open>mono_assembly_loaded\<close> answers with the state; \<^verbatim>\<open>mono_assembly_name_new\<close> hands back
  the buffer it was given.
\<close>

definition sim_runtime :: "nat \<Rightarrow> 32 word \<Rightarrow> string \<Rightarrow> nat list \<Rightarrow> memory \<times> nat \<Rightarrow> nat \<times> (memory \<times> nat)" where
  "sim_runtime ret code f args ms =
     (case ms of (m, s) \<Rightarrow>
        if f = ''mono_assembly_loaded'' then (s, (m, s))
        else if f = ''mono_assembly_name_new'' then
          (case args of [] \<Rightarrow> (0, (m, s)) | p # ps \<Rightarrow> (p, (m, s)))
        else if f = ''mono_assembly_close'' then (0, (m, s))
        else (ret, (m\<lparr>int32 := (\<lambda>p. code)\<rparr>, if ret = 0 then s else ret)))"

text \<open>
  Modelled from the spec: the members of \<^verbatim>\<open>MonoImageOpenStatus\<close> (declared in module
  \<^verbatim>\<open>core\<close>, missing from the sources) are the status domain of section 3,
  \<^verbatim>\<open>{Ok, Error, MissingAssemblyRef, ...}\<close>, status 2 being the missing reference of
  section 8. \<open>status_names\<close> is that table with the three members the spec names; it
  is the enumeration of the simulated environment only, every theorem below holds for
  any table.
\<close>

definition status_names :: "int \<rightharpoonup> string" where
  "status_names = map_of [(0, ''Ok''), (1, ''Error''), (2, ''MissingAssemblyRef'')]"

definition sim_env :: "nat \<Rightarrow> 32 word \<Rightarrow> nat env" where
  "sim_env ret code =
     \<lparr>runtime = sim_runtime ret code, MonoImageOpenStatus = status_names, process_arch = Arch64\<rparr>"

definition world0 :: "nat world" where
  "world0 = \<lparr>mem = \<lparr>utf8 = Map.empty, int32 = (\<lambda>p. 0)\<rparr>, native = 0, brk = 4096, trace = []\<rparr>"

section \<open>The native runtime as a registry of assemblies\<close>

text \<open>
  The class cannot see whether an assembly is loaded: that is a state of the native
  runtime. What the runtime promises is stated as a contract between its behaviour and
  two readings of its state: \<open>aname_of n h\<close>, the name that the
  \<^verbatim>\<open>MonoAssemblyName\<close> at \<open>h\<close> stands for, and \<open>registry n s\<close>, the address of the
  assembly loaded under the name \<open>s\<close>, null when none is.
  \<^item> \<^verbatim>\<open>mono_assembly_name_new\<close>, given a buffer that holds \<open>s\<close>, returns a
    \<^verbatim>\<open>MonoAssemblyName\<close> for \<open>s\<close> and loads nothing;
  \<^item> \<^verbatim>\<open>mono_assembly_loaded\<close> returns what the registry has for the name (the
    documentation of \<open>loaded\<close>: null if the assembly has not been loaded, or the
    assembly that matches);
  \<^item> \<^verbatim>\<open>mono_assembly_load\<close>, when it returns an address that is not null, has the
    assembly in the registry under the name, at that address.
\<close>

definition runtime_contract ::
  "'n env \<Rightarrow> ('n \<Rightarrow> NativePointer \<rightharpoonup> string) \<Rightarrow> ('n \<Rightarrow> string \<Rightarrow> NativePointer) \<Rightarrow> bool" where
  "runtime_contract env aname_of registry =
     ((\<forall>p s m n h m' n'.
         utf8 m p = Some s \<and>
         runtime env ''mono_assembly_name_new'' [p] (m, n) = (h, (m', n')) \<longrightarrow>
         aname_of n' h = Some s \<and> registry n' = registry n) \<and>
      (\<forall>h s m n a m' n'.
         aname_of n h = Some s \<and>
         runtime env ''mono_assembly_loaded'' [h] (m, n) = (a, (m', n')) \<longrightarrow>
         a = registry n s) \<and>
      (\<forall>h s pb st m n a m' n'.
         aname_of n h = Some s \<and> a \<noteq> 0 \<and>
         runtime env ''mono_assembly_load'' [h, pb, st] (m, n) = (a, (m', n')) \<longrightarrow>
         registry n' s = a))"

text \<open>
  A second simulated native layer, which keeps such a registry. Its state lists the
  names made by \<^verbatim>\<open>mono_assembly_name_new\<close>, the assemblies loaded, and the addresses
  released by \<^verbatim>\<open>mono_assembly_close\<close>. \<open>disk\<close> lists the assemblies that can be
  loaded and where they end up; loading any other name fails with status 2.
\<close>

record mono_state =
  anames :: "(NativePointer \<times> string) list"
  assemblies :: "(string \<times> NativePointer) list"
  released :: "NativePointer list"

definition mono_aname_of :: "mono_state \<Rightarrow> NativePointer \<rightharpoonup> string" where
  "mono_aname_of n = map_of (anames n)"

definition mono_registry :: "mono_state \<Rightarrow> string \<Rightarrow> NativePointer" where
  "mono_registry n s = (case map_of (assemblies n) s of Some a \<Rightarrow> a | None \<Rightarrow> 0)"

definition mono_sim ::
  "(string \<times> NativePointer) list \<Rightarrow> string \<Rightarrow> nat list \<Rightarrow> memory \<times> mono_state \<Rightarrow>
   nat \<times> (memory \<times> mono_state)" where
  "mono_sim disk f args ms =
     (case ms of (m, n) \<Rightarrow>
        if f = ''mono_assembly_name_new'' then
          (case args of
             [p] \<Rightarrow>
               (case utf8 m p of
                  Some s \<Rightarrow>
                    (65536 + length (anames n),
                     (m, n\<lparr>anames := (65536 + length (anames n), s) # anames n\<rparr>))
                | None \<Rightarrow> (0, (m, n)))
           | _ \<Rightarrow> (0, (m, n)))
        else if f = ''mono_assembly_loaded'' then
          (case args of
             [h] \<Rightarrow>
               (case map_of (anames n) h of
                  Some s \<Rightarrow> (mono_registry n s, (m, n))
                | None \<Rightarrow> (0, (m, n)))
           | _ \<Rightarrow> (0, (m, n)))
        else if f = ''mono_assembly_load'' then
          (case args of
             [h, pb, st] \<Rightarrow>
               (case map_of (anames n) h of
                  Some s \<Rightarrow>
                    (case map_of disk s of
                       Some a \<Rightarrow>
                         if a = 0 then (0, (m\<lparr>int32 := (int32 m)(st := 2)\<rparr>, n))
                         else (a, (m, n\<lparr>assemblies := (s, a) # assemblies n\<rparr>))
                     | None \<Rightarrow> (0, (m\<lparr>int32 := (int32 m)(st := 2)\<rparr>, n)))
                | None \<Rightarrow> (0, (m\<lparr>int32 := (int32 m)(st := 3)\<rparr>, n)))
           | _ \<Rightarrow> (0, (m, n)))
        else if f = ''mono_assembly_close'' then
          (case args of
             [a] \<Rightarrow> (0, (m, n\<lparr>released := a # released n\<rparr>))
           | _ \<Rightarrow> (0, (m, n)))
        else (0, (m, n)))"

definition mono_env :: "(string \<times> NativePointer) list \<Rightarrow> mono_state env" where
  "mono_env disk =
     \<lparr>runtime = mono_sim disk, MonoImageOpenStatus = status_names, process_arch = Arch64\<rparr>"

definition mono_world0 :: "mono_state world" where
  "mono_world0 =
     \<lparr>mem = \<lparr>utf8 = Map.empty, int32 = (\<lambda>p. 0)\<rparr>,
      native = \<lparr>anames = [], assemblies = [], released = []\<rparr>,
      brk = 4096, trace = []\<rparr>"

section \<open>Each effect, step by step\<close>

lemma events_since_append: "trace w' = trace w @ es \<Longrightarrow> events_since w w' = es"
  by (simp add: events_since_def)

lemma replay_append:
  "replay env (xs @ ys) s =
     (case replay env xs s of None \<Rightarrow> None | Some s' \<Rightarrow> replay env ys s')"
  by (induction xs arbitrary: s) simp_all

lemma faithfulI:
  assumes "trace w' = trace w @ es"
    and "replay env es (mem w, native w) = Some (mem w', native w')"
  shows "faithful env w w'"
  using assms by (simp add: faithful_def events_since_append [OF assms(1)])

lemma faithful_trans [trans]:
  assumes "faithful env w w1" and "faithful env w1 w2"
  shows "faithful env w w2"
proof -
  from assms have t1: "trace w1 = trace w @ events_since w w1"
    and t2: "trace w2 = trace w1 @ events_since w1 w2"
    and r1: "replay env (events_since w w1) (mem w, native w) = Some (mem w1, native w1)"
    and r2: "replay env (events_since w1 w2) (mem w1, native w1) = Some (mem w2, native w2)"
    by (simp_all add: faithful_def)
  have "trace w2 = trace w @ (events_since w w1 @ events_since w1 w2)"
    using t1 t2 by simp
  moreover have "replay env (events_since w w1 @ events_since w1 w2) (mem w, native w) =
      Some (mem w2, native w2)"
    by (simp add: replay_append r1 r2)
  ultimately show ?thesis by (rule faithfulI)
qed

lemma Memory_alloc_run:
  assumes "Memory_alloc n w = (p, w')"
  shows "p = brk w" and "brk w' = brk w + n" and "trace w' = trace w @ [Alloc n (brk w)]"
  using assms by (auto simp: Memory_alloc_def)

lemma Memory_alloc_faithful:
  assumes "Memory_alloc n w = (p, w')"
  shows "faithful env w w'"
proof (rule faithfulI)
  show "trace w' = trace w @ [Alloc n (brk w)]"
    by (rule Memory_alloc_run(3) [OF assms])
  show "replay env [Alloc n (brk w)] (mem w, native w) = Some (mem w', native w')"
    using assms by (auto simp: Memory_alloc_def)
qed

lemma Memory_allocUtf8String_run:
  assumes "Memory_allocUtf8String s w = (p, w')"
  shows "p = brk w" and "brk w' = brk w + length s + 1"
    and "trace w' = trace w @ [AllocUtf8String s (brk w)]"
  using assms by (auto simp: Memory_allocUtf8String_def)

lemma Memory_allocUtf8String_faithful:
  assumes "Memory_allocUtf8String s w = (p, w')"
  shows "faithful env w w'"
proof (rule faithfulI)
  show "trace w' = trace w @ [AllocUtf8String s (brk w)]"
    by (rule Memory_allocUtf8String_run(3) [OF assms])
  show "replay env [AllocUtf8String s (brk w)] (mem w, native w) = Some (mem w', native w')"
    using assms by (auto simp: Memory_allocUtf8String_def)
qed

lemma invoke_run:
  assumes "invoke env f args w = (r, w')"
  shows "brk w' = brk w" and "trace w' = trace w @ [NativeCall (symbol f) args r]"
    and "runtime env (symbol f) (map marshal args) (mem w, native w) = (r, (mem w', native w'))"
  using assms by (auto simp: invoke_def split: prod.splits)

lemma invoke_faithful:
  assumes "invoke env f args w = (r, w')"
  shows "faithful env w w'"
proof (rule faithfulI)
  show "trace w' = trace w @ [NativeCall (symbol f) args r]"
    by (rule invoke_run(2) [OF assms])
  show "replay env [NativeCall (symbol f) args r] (mem w, native w) = Some (mem w', native w')"
    by (simp add: invoke_run(3) [OF assms])
qed

lemma symbols:
  "symbol mono_assembly_name_new = ''mono_assembly_name_new''"
  "symbol mono_assembly_close = ''mono_assembly_close''"
  "symbol mono_assembly_load = ''mono_assembly_load''"
  "symbol mono_assembly_load_full = ''mono_assembly_load_full''"
  "symbol mono_assembly_loaded = ''mono_assembly_loaded''"
  "symbol mono_assembly_load_from = ''mono_assembly_load_from''"
  "symbol mono_assembly_load_from_full = ''mono_assembly_load_from_full''"
  "symbol mono_assembly_load_with_partial_name = ''mono_assembly_load_with_partial_name''"
  by (simp_all add: createNativeFunction_def mono_assembly_name_new_def mono_assembly_close_def
      mono_assembly_load_def mono_assembly_load_full_def mono_assembly_loaded_def
      mono_assembly_load_from_def mono_assembly_load_from_full_def
      mono_assembly_load_with_partial_name_def)

text \<open>The tail every load method ends with: the branch on the returned address.\<close>

lemma branch_run:
  assumes "(if isNull a
            then (case readInt st w5 of (code, w6) \<Rightarrow>
                    (Inl (Error (js_concat P (index_enum E code))), w6))
            else (Inr (fromAddress a), w5)) = (r, w')"
  shows "trace w' = trace w5 @ (if a = 0 then [ReadInt st] else [])"
    and "r = (if a = 0
              then Inl (Error (js_concat P (index_enum E (sint (int32 (mem w') st)))))
              else Inr (fromAddress a))"
    and "brk w' = brk w5"
  using assms by (auto simp: readInt_def isNull_def split: if_splits)

lemma branch_faithful:
  assumes "(if isNull a
            then (case readInt st w5 of (code, w6) \<Rightarrow>
                    (Inl (Error (js_concat P (index_enum E code))), w6))
            else (Inr (fromAddress a), w5)) = (r, w')"
  shows "faithful env w5 w'"
proof (rule faithfulI)
  show "trace w' = trace w5 @ (if a = 0 then [ReadInt st] else [])"
    by (rule branch_run(1) [OF assms])
  show "replay env (if a = 0 then [ReadInt st] else []) (mem w5, native w5) =
      Some (mem w', native w')"
    using assms by (auto simp: readInt_def isNull_def split: if_splits)
qed

section \<open>What one invocation of each method does\<close>

lemma load_run:
  assumes "load env name basedir w = (r, w')"
  shows "\<exists>aname a.
    trace w' = trace w @
      [AllocUtf8String name (brk w),
       NativeCall ''mono_assembly_name_new'' [VPointer (brk w)] aname,
       Alloc (pointerSize env) (brk w + length name + 1),
       AllocUtf8String basedir (brk w + length name + 1 + pointerSize env),
       NativeCall ''mono_assembly_load''
         [VPointer aname, VPointer (brk w + length name + 1 + pointerSize env),
          VPointer (brk w + length name + 1)] a] @
      (if a = 0 then [ReadInt (brk w + length name + 1)] else []) \<and>
    r = (if a = 0
         then Inl (Error (js_concat ''Failed loading MonoAssembly! Error: ''
                (index_enum (MonoImageOpenStatus env) (sint (int32 (mem w') (brk w + length name + 1))))))
         else Inr (fromAddress a)) \<and>
    brk w' = brk w + length name + 1 + pointerSize env + length basedir + 1"
proof -
  obtain pn w1 where 1: "Memory_allocUtf8String name w = (pn, w1)" by fastforce
  obtain aname w2 where 2: "invoke env mono_assembly_name_new [VPointer pn] w1 = (aname, w2)"
    by fastforce
  obtain st w3 where 3: "Memory_alloc (pointerSize env) w2 = (st, w3)" by fastforce
  obtain pb w4 where 4: "Memory_allocUtf8String basedir w3 = (pb, w4)" by fastforce
  obtain a w5 where 5: "invoke env mono_assembly_load
      [VPointer aname, VPointer pb, VPointer st] w4 = (a, w5)"
    by fastforce
  note f1 = Memory_allocUtf8String_run [OF 1] and f2 = invoke_run [OF 2]
    and f3 = Memory_alloc_run [OF 3] and f4 = Memory_allocUtf8String_run [OF 4]
    and f5 = invoke_run [OF 5]
  have pn: "pn = brk w" and st: "st = brk w + length name + 1"
    and pb: "pb = brk w + length name + 1 + pointerSize env"
    using f1(1,2) f2(1) f3(1,2) f4(1) by simp_all
  from assms have "(if isNull a
            then (case readInt st w5 of (code, w6) \<Rightarrow>
                    (Inl (Error (js_concat ''Failed loading MonoAssembly! Error: ''
                       (index_enum (MonoImageOpenStatus env) code))), w6))
            else (Inr (fromAddress a), w5)) = (r, w')"
    by (simp add: load_def 1 2 3 4 5)
  note b = branch_run [OF this]
  have "trace w5 = trace w @
      [AllocUtf8String name (brk w),
       NativeCall ''mono_assembly_name_new'' [VPointer (brk w)] aname,
       Alloc (pointerSize env) (brk w + length name + 1),
       AllocUtf8String basedir (brk w + length name + 1 + pointerSize env),
       NativeCall ''mono_assembly_load''
         [VPointer aname, VPointer (brk w + length name + 1 + pointerSize env),
          VPointer (brk w + length name + 1)] a]"
    using f1(3) f2(2) f3(3) f4(3) f5(2) f1(2) f2(1) f3(2) pn st pb by (simp add: symbols)
  moreover have "brk w5 = brk w + length name + 1 + pointerSize env + length basedir + 1"
    using f1(2) f2(1) f3(2) f4(2) f5(1) by simp
  ultimately show ?thesis using b st by auto
qed

lemma loadFull_run:
  assumes "loadFull env name basedir refOnly w = (r, w')"
  shows "\<exists>aname a.
    trace w' = trace w @
      [AllocUtf8String name (brk w),
       NativeCall ''mono_assembly_name_new'' [VPointer (brk w)] aname,
       Alloc (pointerSize env) (brk w + length name + 1),
       AllocUtf8String basedir (brk w + length name + 1 + pointerSize env),
       NativeCall ''mono_assembly_load_full''
         [VPointer aname, VPointer (brk w + length name + 1 + pointerSize env),
          VPointer (brk w + length name + 1), VBool refOnly] a] @
      (if a = 0 then [ReadInt (brk w + length name + 1)] else []) \<and>
    r = (if a = 0
         then Inl (Error (js_concat ''Failed loading MonoAssembly! Error: ''
                (index_enum (MonoImageOpenStatus env) (sint (int32 (mem w') (brk w + length name + 1))))))
         else Inr (fromAddress a)) \<and>
    brk w' = brk w + length name + 1 + pointerSize env + length basedir + 1"
proof -
  obtain pn w1 where 1: "Memory_allocUtf8String name w = (pn, w1)" by fastforce
  obtain aname w2 where 2: "invoke env mono_assembly_name_new [VPointer pn] w1 = (aname, w2)"
    by fastforce
  obtain st w3 where 3: "Memory_alloc (pointerSize env) w2 = (st, w3)" by fastforce
  obtain pb w4 where 4: "Memory_allocUtf8String basedir w3 = (pb, w4)" by fastforce
  obtain a w5 where 5: "invoke env mono_assembly_load_full
      [VPointer aname, VPointer pb, VPointer st, VBool refOnly] w4 = (a, w5)"
    by fastforce
  note f1 = Memory_allocUtf8String_run [OF 1] and f2 = invoke_run [OF 2]
    and f3 = Memory_alloc_run [OF 3] and f4 = Memory_allocUtf8String_run [OF 4]
    and f5 = invoke_run [OF 5]
  have pn: "pn = brk w" and st: "st = brk w + length name + 1"
    and pb: "pb = brk w + length name + 1 + pointerSize env"
    using f1(1,2) f2(1) f3(1,2) f4(1) by simp_all
  from assms have "(if isNull a
            then (case readInt st w5 of (code, w6) \<Rightarrow>
                    (Inl (Error (js_concat ''Failed loading MonoAssembly! Error: ''
                       (index_enum (MonoImageOpenStatus env) code))), w6))
            else (Inr (fromAddress a), w5)) = (r, w')"
    by (simp add: loadFull_def 1 2 3 4 5)
  note b = branch_run [OF this]
  have "trace w5 = trace w @
      [AllocUtf8String name (brk w),
       NativeCall ''mono_assembly_name_new'' [VPointer (brk w)] aname,
       Alloc (pointerSize env) (brk w + length name + 1),
       AllocUtf8String basedir (brk w + length name + 1 + pointerSize env),
       NativeCall ''mono_assembly_load_full''
         [VPointer aname, VPointer (brk w + length name + 1 + pointerSize env),
          VPointer (brk w + length name + 1), VBool refOnly] a]"
    using f1(3) f2(2) f3(3) f4(3) f5(2) f1(2) f2(1) f3(2) pn st pb by (simp add: symbols)
  moreover have "brk w5 = brk w + length name + 1 + pointerSize env + length basedir + 1"
    using f1(2) f2(1) f3(2) f4(2) f5(1) by simp
  ultimately show ?thesis using b st by auto
qed

lemma loadFrom_run:
  assumes "loadFrom env img name w = (r, w')"
  shows "\<exists>a.
    trace w' = trace w @
      [Alloc (pointerSize env) (brk w),
       AllocUtf8String name (brk w + pointerSize env),
       NativeCall ''mono_assembly_load_from''
         [VPointer (address img), VPointer (brk w + pointerSize env), VPointer (brk w)] a] @
      (if a = 0 then [ReadInt (brk w)] else []) \<and>
    r = (if a = 0
         then Inl (Error (js_concat ''Failed loading MonoAssembly! Error: ''
                (index_enum (MonoImageOpenStatus env) (sint (int32 (mem w') (brk w))))))
         else Inr (fromAddress a)) \<and>
    brk w' = brk w + pointerSize env + length name + 1"
proof -
  obtain st w1 where 1: "Memory_alloc (pointerSize env) w = (st, w1)" by fastforce
  obtain pn w2 where 2: "Memory_allocUtf8String name w1 = (pn, w2)" by fastforce
  obtain a w5 where 3: "invoke env mono_assembly_load_from
      [VPointer (address img), VPointer pn, VPointer st] w2 = (a, w5)"
    by fastforce
  note f1 = Memory_alloc_run [OF 1] and f2 = Memory_allocUtf8String_run [OF 2]
    and f3 = invoke_run [OF 3]
  have st: "st = brk w" and pn: "pn = brk w + pointerSize env"
    using f1(1,2) f2(1) by simp_all
  from assms have "(if isNull a
            then (case readInt st w5 of (code, w6) \<Rightarrow>
                    (Inl (Error (js_concat ''Failed loading MonoAssembly! Error: ''
                       (index_enum (MonoImageOpenStatus env) code))), w6))
            else (Inr (fromAddress a), w5)) = (r, w')"
    by (simp add: loadFrom_def 1 2 3)
  note b = branch_run [OF this]
  have "trace w5 = trace w @
      [Alloc (pointerSize env) (brk w),
       AllocUtf8String name (brk w + pointerSize env),
       NativeCall ''mono_assembly_load_from''
         [VPointer (address img), VPointer (brk w + pointerSize env), VPointer (brk w)] a]"
    using f1(2,3) f2(3) f3(2) st pn by (simp add: symbols)
  moreover have "brk w5 = brk w + pointerSize env + length name + 1"
    using f1(2) f2(2) f3(1) by simp
  ultimately show ?thesis using b st by auto
qed

lemma loadFromFull_run:
  assumes "loadFromFull env img name refOnly w = (r, w')"
  shows "\<exists>a.
    trace w' = trace w @
      [Alloc (pointerSize env) (brk w),
       AllocUtf8String name (brk w + pointerSize env),
       NativeCall ''mono_assembly_load_from_full''
         [VPointer (address img), VPointer (brk w + pointerSize env), VPointer (brk w),
          VBool refOnly] a] @
      (if a = 0 then [ReadInt (brk w)] else []) \<and>
    r = (if a = 0
         then Inl (Error (js_concat ''Failed loading MonoAssembly! Error: ''
                (index_enum (MonoImageOpenStatus env) (sint (int32 (mem w') (brk w))))))
         else Inr (fromAddress a)) \<and>
    brk w' = brk w + pointerSize env + length name + 1"
proof -
  obtain st w1 where 1: "Memory_alloc (pointerSize env) w = (st, w1)" by fastforce
  obtain pn w2 where 2: "Memory_allocUtf8String name w1 = (pn, w2)" by fastforce
  obtain a w5 where 3: "invoke env mono_assembly_load_from_full
      [VPointer (address img), VPointer pn, VPointer st, VBool refOnly] w2 = (a, w5)"
    by fastforce
  note f1 = Memory_alloc_run [OF 1] and f2 = Memory_allocUtf8String_run [OF 2]
    and f3 = invoke_run [OF 3]
  have st: "st = brk w" and pn: "pn = brk w + pointerSize env"
    using f1(1,2) f2(1) by simp_all
  from assms have "(if isNull a
            then (case readInt st w5 of (code, w6) \<Rightarrow>
                    (Inl (Error (js_concat ''Failed loading MonoAssembly! Error: ''
                       (index_enum (MonoImageOpenStatus env) code))), w6))
            else (Inr (fromAddress a), w5)) = (r, w')"
    by (simp add: loadFromFull_def 1 2 3)
  note b = branch_run [OF this]
  have "trace w5 = trace w @
      [Alloc (pointerSize env) (brk w),
       AllocUtf8String name (brk w + pointerSize env),
       NativeCall ''mono_assembly_load_from_full''
         [VPointer (address img), VPointer (brk w + pointerSize env), VPointer (brk w),
          VBool refOnly] a]"
    using f1(2,3) f2(3) f3(2) st pn by (simp add: symbols)
  moreover have "brk w5 = brk w + pointerSize env + length name + 1"
    using f1(2) f2(2) f3(1) by simp
  ultimately show ?thesis using b st by auto
qed

lemma loadWithPartialName_run:
  assumes "loadWithPartialName env name w = (r, w')"
  shows "\<exists>a.
    trace w' = trace w @
      [Alloc (pointerSize env) (brk w),
       AllocUtf8String name (brk w + pointerSize env),
       NativeCall ''mono_assembly_load_with_partial_name''
         [VPointer (brk w + pointerSize env), VPointer (brk w)] a] @
      (if a = 0 then [ReadInt (brk w)] else []) \<and>
    r = (if a = 0
         then Inl (Error (js_concat ''Failed loading MonoAssembly! Error: ''
                (index_enum (MonoImageOpenStatus env) (sint (int32 (mem w') (brk w))))))
         else Inr (fromAddress a)) \<and>
    brk w' = brk w + pointerSize env + length name + 1"
proof -
  obtain st w1 where 1: "Memory_alloc (pointerSize env) w = (st, w1)" by fastforce
  obtain pn w2 where 2: "Memory_allocUtf8String name w1 = (pn, w2)" by fastforce
  obtain a w5 where 3: "invoke env mono_assembly_load_with_partial_name
      [VPointer pn, VPointer st] w2 = (a, w5)"
    by fastforce
  note f1 = Memory_alloc_run [OF 1] and f2 = Memory_allocUtf8String_run [OF 2]
    and f3 = invoke_run [OF 3]
  have st: "st = brk w" and pn: "pn = brk w + pointerSize env"
    using f1(1,2) f2(1) by simp_all
  from assms have "(if isNull a
            then (case readInt st w5 of (code, w6) \<Rightarrow>
                    (Inl (Error (js_concat ''Failed loading MonoAssembly! Error: ''
                       (index_enum (MonoImageOpenStatus env) code))), w6))
            else (Inr (fromAddress a), w5)) = (r, w')"
    by (simp add: loadWithPartialName_def 1 2 3)
  note b = branch_run [OF this]
  have "trace w5 = trace w @
      [Alloc (pointerSize env) (brk w),
       AllocUtf8String name (brk w + pointerSize env),
       NativeCall ''mono_assembly_load_with_partial_name''
         [VPointer (brk w + pointerSize env), VPointer (brk w)] a]"
    using f1(2,3) f2(3) f3(2) st pn by (simp add: symbols)
  moreover have "brk w5 = brk w + pointerSize env + length name + 1"
    using f1(2) f2(2) f3(1) by simp
  ultimately show ?thesis using b st by auto
qed

lemma loaded_run:
  assumes "loaded env name w = (r, w')"
  shows "\<exists>aname a.
    trace w' = trace w @
      [AllocUtf8String name (brk w),
       NativeCall ''mono_assembly_name_new'' [VPointer (brk w)] aname,
       NativeCall ''mono_assembly_loaded'' [VPointer aname] a] \<and>
    r = Inr (fromAddress a) \<and>
    brk w' = brk w + length name + 1"
proof -
  obtain pn w1 where 1: "Memory_allocUtf8String name w = (pn, w1)" by fastforce
  obtain aname w2 where 2: "invoke env mono_assembly_name_new [VPointer pn] w1 = (aname, w2)"
    by fastforce
  obtain a w3 where 3: "invoke env mono_assembly_loaded [VPointer aname] w2 = (a, w3)"
    by fastforce
  note f1 = Memory_allocUtf8String_run [OF 1] and f2 = invoke_run [OF 2]
    and f3 = invoke_run [OF 3]
  from assms have r: "r = Inr (fromAddress a)" and w': "w' = w3"
    by (simp_all add: loaded_def 1 2 3)
  have "trace w3 = trace w @
      [AllocUtf8String name (brk w),
       NativeCall ''mono_assembly_name_new'' [VPointer (brk w)] aname,
       NativeCall ''mono_assembly_loaded'' [VPointer aname] a]"
    using f1(1,3) f2(2) f3(2) by (simp add: symbols)
  moreover have "brk w3 = brk w + length name + 1"
    using f1(2) f2(1) f3(1) by simp
  ultimately show ?thesis using r w' by auto
qed

lemma close_run:
  assumes "close env this w = (ret, w')"
  shows "\<exists>x. trace w' = trace w @ [NativeCall ''mono_assembly_close'' [VPointer (address this)] x] \<and>
      runtime env ''mono_assembly_close'' [address this] (mem w, native w) =
        (x, (mem w', native w'))"
    and "ret = (JSUndefined, this)" and "brk w' = brk w"
proof -
  obtain x w1 where 1: "invoke env mono_assembly_close [VPointer (address this)] w = (x, w1)"
    by fastforce
  from assms have ret: "ret = (JSUndefined, this)" and w': "w' = w1"
    by (simp_all add: close_def 1)
  show "ret = (JSUndefined, this)" by (rule ret)
  show "\<exists>x. trace w' = trace w @ [NativeCall ''mono_assembly_close'' [VPointer (address this)] x] \<and>
      runtime env ''mono_assembly_close'' [address this] (mem w, native w) =
        (x, (mem w', native w'))"
    using invoke_run(2,3) [OF 1] w' by (auto simp: symbols)
  show "brk w' = brk w"
    using invoke_run(1) [OF 1] w' by simp
qed

section \<open>Every run is what its trace says\<close>

lemma load_faithful:
  assumes "load env name basedir w = (r, w')"
  shows "faithful env w w'"
proof -
  obtain pn w1 where 1: "Memory_allocUtf8String name w = (pn, w1)" by fastforce
  obtain aname w2 where 2: "invoke env mono_assembly_name_new [VPointer pn] w1 = (aname, w2)"
    by fastforce
  obtain st w3 where 3: "Memory_alloc (pointerSize env) w2 = (st, w3)" by fastforce
  obtain pb w4 where 4: "Memory_allocUtf8String basedir w3 = (pb, w4)" by fastforce
  obtain a w5 where 5: "invoke env mono_assembly_load
      [VPointer aname, VPointer pb, VPointer st] w4 = (a, w5)"
    by fastforce
  from assms have br: "(if isNull a
            then (case readInt st w5 of (code, w6) \<Rightarrow>
                    (Inl (Error (js_concat ''Failed loading MonoAssembly! Error: ''
                       (index_enum (MonoImageOpenStatus env) code))), w6))
            else (Inr (fromAddress a), w5)) = (r, w')"
    by (simp add: load_def 1 2 3 4 5)
  have "faithful env w w1" by (rule Memory_allocUtf8String_faithful [OF 1])
  also have "faithful env w1 w2" by (rule invoke_faithful [OF 2])
  also have "faithful env w2 w3" by (rule Memory_alloc_faithful [OF 3])
  also have "faithful env w3 w4" by (rule Memory_allocUtf8String_faithful [OF 4])
  also have "faithful env w4 w5" by (rule invoke_faithful [OF 5])
  also have "faithful env w5 w'" by (rule branch_faithful [OF br])
  finally show ?thesis .
qed

lemma loadFull_faithful:
  assumes "loadFull env name basedir refOnly w = (r, w')"
  shows "faithful env w w'"
proof -
  obtain pn w1 where 1: "Memory_allocUtf8String name w = (pn, w1)" by fastforce
  obtain aname w2 where 2: "invoke env mono_assembly_name_new [VPointer pn] w1 = (aname, w2)"
    by fastforce
  obtain st w3 where 3: "Memory_alloc (pointerSize env) w2 = (st, w3)" by fastforce
  obtain pb w4 where 4: "Memory_allocUtf8String basedir w3 = (pb, w4)" by fastforce
  obtain a w5 where 5: "invoke env mono_assembly_load_full
      [VPointer aname, VPointer pb, VPointer st, VBool refOnly] w4 = (a, w5)"
    by fastforce
  from assms have br: "(if isNull a
            then (case readInt st w5 of (code, w6) \<Rightarrow>
                    (Inl (Error (js_concat ''Failed loading MonoAssembly! Error: ''
                       (index_enum (MonoImageOpenStatus env) code))), w6))
            else (Inr (fromAddress a), w5)) = (r, w')"
    by (simp add: loadFull_def 1 2 3 4 5)
  have "faithful env w w1" by (rule Memory_allocUtf8String_faithful [OF 1])
  also have "faithful env w1 w2" by (rule invoke_faithful [OF 2])
  also have "faithful env w2 w3" by (rule Memory_alloc_faithful [OF 3])
  also have "faithful env w3 w4" by (rule Memory_allocUtf8String_faithful [OF 4])
  also have "faithful env w4 w5" by (rule invoke_faithful [OF 5])
  also have "faithful env w5 w'" by (rule branch_faithful [OF br])
  finally show ?thesis .
qed

lemma loadFrom_faithful:
  assumes "loadFrom env img name w = (r, w')"
  shows "faithful env w w'"
proof -
  obtain st w1 where 1: "Memory_alloc (pointerSize env) w = (st, w1)" by fastforce
  obtain pn w2 where 2: "Memory_allocUtf8String name w1 = (pn, w2)" by fastforce
  obtain a w5 where 3: "invoke env mono_assembly_load_from
      [VPointer (address img), VPointer pn, VPointer st] w2 = (a, w5)"
    by fastforce
  from assms have br: "(if isNull a
            then (case readInt st w5 of (code, w6) \<Rightarrow>
                    (Inl (Error (js_concat ''Failed loading MonoAssembly! Error: ''
                       (index_enum (MonoImageOpenStatus env) code))), w6))
            else (Inr (fromAddress a), w5)) = (r, w')"
    by (simp add: loadFrom_def 1 2 3)
  have "faithful env w w1" by (rule Memory_alloc_faithful [OF 1])
  also have "faithful env w1 w2" by (rule Memory_allocUtf8String_faithful [OF 2])
  also have "faithful env w2 w5" by (rule invoke_faithful [OF 3])
  also have "faithful env w5 w'" by (rule branch_faithful [OF br])
  finally show ?thesis .
qed

lemma loadFromFull_faithful:
  assumes "loadFromFull env img name refOnly w = (r, w')"
  shows "faithful env w w'"
proof -
  obtain st w1 where 1: "Memory_alloc (pointerSize env) w = (st, w1)" by fastforce
  obtain pn w2 where 2: "Memory_allocUtf8String name w1 = (pn, w2)" by fastforce
  obtain a w5 where 3: "invoke env mono_assembly_load_from_full
      [VPointer (address img), VPointer pn, VPointer st, VBool refOnly] w2 = (a, w5)"
    by fastforce
  from assms have br: "(if isNull a
            then (case readInt st w5 of (code, w6) \<Rightarrow>
                    (Inl (Error (js_concat ''Failed loading MonoAssembly! Error: ''
                       (index_enum (MonoImageOpenStatus env) code))), w6))
            else (Inr (fromAddress a), w5)) = (r, w')"
    by (simp add: loadFromFull_def 1 2 3)
  have "faithful env w w1" by (rule Memory_alloc_faithful [OF 1])
  also have "faithful env w1 w2" by (rule Memory_allocUtf8String_faithful [OF 2])
  also have "faithful env w2 w5" by (rule invoke_faithful [OF 3])
  also have "faithful env w5 w'" by (rule branch_faithful [OF br])
  finally show ?thesis .
qed

lemma loadWithPartialName_faithful:
  assumes "loadWithPartialName env name w = (r, w')"
  shows "faithful env w w'"
proof -
  obtain st w1 where 1: "Memory_alloc (pointerSize env) w = (st, w1)" by fastforce
  obtain pn w2 where 2: "Memory_allocUtf8String name w1 = (pn, w2)" by fastforce
  obtain a w5 where 3: "invoke env mono_assembly_load_with_partial_name
      [VPointer pn, VPointer st] w2 = (a, w5)"
    by fastforce
  from assms have br: "(if isNull a
            then (case readInt st w5 of (code, w6) \<Rightarrow>
                    (Inl (Error (js_concat ''Failed loading MonoAssembly! Error: ''
                       (index_enum (MonoImageOpenStatus env) code))), w6))
            else (Inr (fromAddress a), w5)) = (r, w')"
    by (simp add: loadWithPartialName_def 1 2 3)
  have "faithful env w w1" by (rule Memory_alloc_faithful [OF 1])
  also have "faithful env w1 w2" by (rule Memory_allocUtf8String_faithful [OF 2])
  also have "faithful env w2 w5" by (rule invoke_faithful [OF 3])
  also have "faithful env w5 w'" by (rule branch_faithful [OF br])
  finally show ?thesis .
qed

lemma loaded_faithful:
  assumes "loaded env name w = (r, w')"
  shows "faithful env w w'"
proof -
  obtain pn w1 where 1: "Memory_allocUtf8String name w = (pn, w1)" by fastforce
  obtain aname w2 where 2: "invoke env mono_assembly_name_new [VPointer pn] w1 = (aname, w2)"
    by fastforce
  obtain a w3 where 3: "invoke env mono_assembly_loaded [VPointer aname] w2 = (a, w3)"
    by fastforce
  from assms have w': "w' = w3"
    by (simp add: loaded_def 1 2 3)
  have "faithful env w w1" by (rule Memory_allocUtf8String_faithful [OF 1])
  also have "faithful env w1 w2" by (rule invoke_faithful [OF 2])
  also have "faithful env w2 w3" by (rule invoke_faithful [OF 3])
  finally show ?thesis by (simp add: w')
qed

lemma perform_faithful:
  assumes "perform env q w = (r, w')"
  shows "replay env (events_since w w') (mem w, native w) = Some (mem w', native w')"
proof -
  have "faithful env w w'"
    using assms
    by (cases q)
      (auto intro: load_faithful loadFull_faithful loadFrom_faithful loadFromFull_faithful
        loadWithPartialName_faithful)
  then show ?thesis by (simp add: faithful_def)
qed

section \<open>The load family, uniformly\<close>

text \<open>
  One invocation of any method of the family: some allocations (and, for the methods
  that take an assembly name, its conversion), then the method's own native call, then
  the status read exactly when the call returned null.
\<close>

lemma perform_run:
  assumes "perform env q w = (r, w')"
  shows "\<exists>pre args a st.
    events_since w w' =
      pre @ [NativeCall (native_symbol q) args a] @ (if a = 0 then [ReadInt st] else []) \<and>
    encoded pre = string_inputs q \<and>
    slots pre = [(pointerSize env, st)] \<and>
    status_reads pre = [] \<and>
    VPointer st \<in> set args \<and>
    (\<forall>(s, p) \<in> set (encodings pre).
       (p, Some s) \<in> set (delivered env (events_since w w') (mem w, native w))) \<and>
    scoped (handle_inputs q) (events_since w w') \<and>
    replay env (events_since w w') (mem w, native w) = Some (mem w', native w') \<and>
    r = (if a = 0
         then Inl (Error (js_concat ''Failed loading MonoAssembly! Error: ''
                (index_enum (MonoImageOpenStatus env) (sint (int32 (mem w') st)))))
         else Inr (fromAddress a))"
proof (cases q)
  case (Load name basedir)
  with assms have "load env name basedir w = (r, w')" by simp
  from load_run [OF this] obtain aname a where
    tr: "trace w' = trace w @
      [AllocUtf8String name (brk w),
       NativeCall ''mono_assembly_name_new'' [VPointer (brk w)] aname,
       Alloc (pointerSize env) (brk w + length name + 1),
       AllocUtf8String basedir (brk w + length name + 1 + pointerSize env),
       NativeCall ''mono_assembly_load''
         [VPointer aname, VPointer (brk w + length name + 1 + pointerSize env),
          VPointer (brk w + length name + 1)] a] @
      (if a = 0 then [ReadInt (brk w + length name + 1)] else [])"
    and r: "r = (if a = 0
         then Inl (Error (js_concat ''Failed loading MonoAssembly! Error: ''
                (index_enum (MonoImageOpenStatus env)
                   (sint (int32 (mem w') (brk w + length name + 1))))))
         else Inr (fromAddress a))"
    and b: "brk w' = brk w + length name + 1 + pointerSize env + length basedir + 1"
    by blast
  note ev = events_since_append [OF tr]
  have fa: "replay env (events_since w w') (mem w, native w) = Some (mem w', native w')"
    by (rule perform_faithful [OF assms])
  show ?thesis
    apply (rule exI [of _ "[AllocUtf8String name (brk w),
       NativeCall ''mono_assembly_name_new'' [VPointer (brk w)] aname,
       Alloc (pointerSize env) (brk w + length name + 1),
       AllocUtf8String basedir (brk w + length name + 1 + pointerSize env)]"])
    apply (rule exI [of _ "[VPointer aname, VPointer (brk w + length name + 1 + pointerSize env),
          VPointer (brk w + length name + 1)]"])
    apply (rule exI [of _ a])
    apply (rule exI [of _ "brk w + length name + 1"])
    using fa by (simp add: ev r b Load)
next
  case (LoadFull name basedir refOnly)
  with assms have "loadFull env name basedir refOnly w = (r, w')" by simp
  from loadFull_run [OF this] obtain aname a where
    tr: "trace w' = trace w @
      [AllocUtf8String name (brk w),
       NativeCall ''mono_assembly_name_new'' [VPointer (brk w)] aname,
       Alloc (pointerSize env) (brk w + length name + 1),
       AllocUtf8String basedir (brk w + length name + 1 + pointerSize env),
       NativeCall ''mono_assembly_load_full''
         [VPointer aname, VPointer (brk w + length name + 1 + pointerSize env),
          VPointer (brk w + length name + 1), VBool refOnly] a] @
      (if a = 0 then [ReadInt (brk w + length name + 1)] else [])"
    and r: "r = (if a = 0
         then Inl (Error (js_concat ''Failed loading MonoAssembly! Error: ''
                (index_enum (MonoImageOpenStatus env)
                   (sint (int32 (mem w') (brk w + length name + 1))))))
         else Inr (fromAddress a))"
    and b: "brk w' = brk w + length name + 1 + pointerSize env + length basedir + 1"
    by blast
  note ev = events_since_append [OF tr]
  have fa: "replay env (events_since w w') (mem w, native w) = Some (mem w', native w')"
    by (rule perform_faithful [OF assms])
  show ?thesis
    apply (rule exI [of _ "[AllocUtf8String name (brk w),
       NativeCall ''mono_assembly_name_new'' [VPointer (brk w)] aname,
       Alloc (pointerSize env) (brk w + length name + 1),
       AllocUtf8String basedir (brk w + length name + 1 + pointerSize env)]"])
    apply (rule exI [of _ "[VPointer aname, VPointer (brk w + length name + 1 + pointerSize env),
          VPointer (brk w + length name + 1), VBool refOnly]"])
    apply (rule exI [of _ a])
    apply (rule exI [of _ "brk w + length name + 1"])
    using fa by (simp add: ev r b LoadFull)
next
  case (LoadFrom img name)
  with assms have "loadFrom env img name w = (r, w')" by simp
  from loadFrom_run [OF this] obtain a where
    tr: "trace w' = trace w @
      [Alloc (pointerSize env) (brk w),
       AllocUtf8String name (brk w + pointerSize env),
       NativeCall ''mono_assembly_load_from''
         [VPointer (address img), VPointer (brk w + pointerSize env), VPointer (brk w)] a] @
      (if a = 0 then [ReadInt (brk w)] else [])"
    and r: "r = (if a = 0
         then Inl (Error (js_concat ''Failed loading MonoAssembly! Error: ''
                (index_enum (MonoImageOpenStatus env) (sint (int32 (mem w') (brk w))))))
         else Inr (fromAddress a))"
    and b: "brk w' = brk w + pointerSize env + length name + 1"
    by blast
  note ev = events_since_append [OF tr]
  have fa: "replay env (events_since w w') (mem w, native w) = Some (mem w', native w')"
    by (rule perform_faithful [OF assms])
  show ?thesis
    apply (rule exI [of _ "[Alloc (pointerSize env) (brk w),
       AllocUtf8String name (brk w + pointerSize env)]"])
    apply (rule exI [of _ "[VPointer (address img), VPointer (brk w + pointerSize env),
       VPointer (brk w)]"])
    apply (rule exI [of _ a])
    apply (rule exI [of _ "brk w"])
    using fa by (simp add: ev r b LoadFrom)
next
  case (LoadFromFull img name refOnly)
  with assms have "loadFromFull env img name refOnly w = (r, w')" by simp
  from loadFromFull_run [OF this] obtain a where
    tr: "trace w' = trace w @
      [Alloc (pointerSize env) (brk w),
       AllocUtf8String name (brk w + pointerSize env),
       NativeCall ''mono_assembly_load_from_full''
         [VPointer (address img), VPointer (brk w + pointerSize env), VPointer (brk w),
          VBool refOnly] a] @
      (if a = 0 then [ReadInt (brk w)] else [])"
    and r: "r = (if a = 0
         then Inl (Error (js_concat ''Failed loading MonoAssembly! Error: ''
                (index_enum (MonoImageOpenStatus env) (sint (int32 (mem w') (brk w))))))
         else Inr (fromAddress a))"
    and b: "brk w' = brk w + pointerSize env + length name + 1"
    by blast
  note ev = events_since_append [OF tr]
  have fa: "replay env (events_since w w') (mem w, native w) = Some (mem w', native w')"
    by (rule perform_faithful [OF assms])
  show ?thesis
    apply (rule exI [of _ "[Alloc (pointerSize env) (brk w),
       AllocUtf8String name (brk w + pointerSize env)]"])
    apply (rule exI [of _ "[VPointer (address img), VPointer (brk w + pointerSize env),
       VPointer (brk w), VBool refOnly]"])
    apply (rule exI [of _ a])
    apply (rule exI [of _ "brk w"])
    using fa by (simp add: ev r b LoadFromFull)
next
  case (LoadWithPartialName name)
  with assms have "loadWithPartialName env name w = (r, w')" by simp
  from loadWithPartialName_run [OF this] obtain a where
    tr: "trace w' = trace w @
      [Alloc (pointerSize env) (brk w),
       AllocUtf8String name (brk w + pointerSize env),
       NativeCall ''mono_assembly_load_with_partial_name''
         [VPointer (brk w + pointerSize env), VPointer (brk w)] a] @
      (if a = 0 then [ReadInt (brk w)] else [])"
    and r: "r = (if a = 0
         then Inl (Error (js_concat ''Failed loading MonoAssembly! Error: ''
                (index_enum (MonoImageOpenStatus env) (sint (int32 (mem w') (brk w))))))
         else Inr (fromAddress a))"
    and b: "brk w' = brk w + pointerSize env + length name + 1"
    by blast
  note ev = events_since_append [OF tr]
  have fa: "replay env (events_since w w') (mem w, native w) = Some (mem w', native w')"
    by (rule perform_faithful [OF assms])
  show ?thesis
    apply (rule exI [of _ "[Alloc (pointerSize env) (brk w),
       AllocUtf8String name (brk w + pointerSize env)]"])
    apply (rule exI [of _ "[VPointer (brk w + pointerSize env), VPointer (brk w)]"])
    apply (rule exI [of _ a])
    apply (rule exI [of _ "brk w"])
    using fa by (simp add: ev r b LoadWithPartialName)
qed

lemmas run_defs = load_def loadFull_def loadFrom_def loadFromFull_def loadWithPartialName_def
  loaded_def close_def Memory_alloc_def Memory_allocUtf8String_def readInt_def invoke_def
  isNull_def pointerSize_def fromAddress_def index_enum_def symbols events_since_def
  skeleton_def

lemmas sim_defs = sim_env_def sim_runtime_def world0_def status_names_def

lemmas mono_defs = mono_env_def mono_sim_def mono_world0_def mono_registry_def
  mono_aname_of_def status_names_def

section \<open>The claims\<close>

subsection \<open>Outcome of a load\<close>

text \<open>
  C1, as stated, fails: the claim has the message of the error carry a status label
  for every input. With -1 in the status slot the message is the prefix followed by
  \<^verbatim>\<open>undefined\<close>, which is the prefix followed by no label of the enumeration.
\<close>

theorem load_message_without_label:
  "fst (perform (sim_env 0 (- 1)) (LoadFromFull (fromAddress 512) ''Foo'' True) world0) =
     Inl (Error ''Failed loading MonoAssembly! Error: undefined'') \<and>
   MonoImageOpenStatus (sim_env 0 (- 1)) (- 1) = None \<and>
   ''Failed loading MonoAssembly! Error: undefined'' \<notin>
     (@) ''Failed loading MonoAssembly! Error: '' ` ran (MonoImageOpenStatus (sim_env 0 (- 1)))"
proof -
  have "ran status_names = {''Ok'', ''Error'', ''MissingAssemblyRef''}"
    unfolding status_names_def by (subst ran_distinct) auto
  then show ?thesis
    by (simp add: run_defs sim_defs)
qed

text \<open>
  C1, amended. For every method of the load family (\<open>load\<close>, \<open>loadFull\<close>, \<open>loadFrom\<close>,
  \<open>loadFromFull\<close>, \<open>loadWithPartialName\<close>), every input and every native runtime: the
  run ends with the method's own native call, which is given the address \<open>st\<close> of the
  status slot allocated in this run and returns a word \<open>a\<close> (the trace replays on the
  runtime, so \<open>a\<close> is what the runtime returned). If \<open>a\<close> is null, the method raises
  an error whose message is the fixed prefix followed by the enumerated label of the
  integer in the slot when that integer is the value of a member, and by the text
  \<^verbatim>\<open>undefined\<close> otherwise; if \<open>a\<close> is not null, it returns \<open>fromAddress a\<close>.
\<close>

theorem load_family_null_raises_else_wraps:
  assumes "perform env q w = (r, w')"
  shows "\<exists>pre args a st.
    events_since w w' =
      pre @ [NativeCall (native_symbol q) args a] @ (if a = 0 then [ReadInt st] else []) \<and>
    slots pre = [(pointerSize env, st)] \<and> VPointer st \<in> set args \<and>
    replay env (events_since w w') (mem w, native w) = Some (mem w', native w') \<and>
    (a = 0 \<longrightarrow> r = Inl (Error (''Failed loading MonoAssembly! Error: '' @
       (case MonoImageOpenStatus env (sint (int32 (mem w') st)) of
          Some l \<Rightarrow> l | None \<Rightarrow> ''undefined'')))) \<and>
    (a \<noteq> 0 \<longrightarrow> r = Inr (fromAddress a))"
proof -
  from perform_run [OF assms] obtain pre args a st where
    ev: "events_since w w' =
      pre @ [NativeCall (native_symbol q) args a] @ (if a = 0 then [ReadInt st] else [])"
    and sl: "slots pre = [(pointerSize env, st)]" and st: "VPointer st \<in> set args"
    and r: "r = (if a = 0
         then Inl (Error (js_concat ''Failed loading MonoAssembly! Error: ''
                (index_enum (MonoImageOpenStatus env) (sint (int32 (mem w') st)))))
         else Inr (fromAddress a))"
    by blast
  have "a = 0 \<longrightarrow> r = Inl (Error (''Failed loading MonoAssembly! Error: '' @
       (case MonoImageOpenStatus env (sint (int32 (mem w') st)) of
          Some l \<Rightarrow> l | None \<Rightarrow> ''undefined'')))"
    using r by (simp add: index_enum_def split: option.splits)
  moreover have "a \<noteq> 0 \<longrightarrow> r = Inr (fromAddress a)"
    using r by simp
  ultimately show ?thesis
    using ev sl st perform_faithful [OF assms]
    by (intro exI [of _ pre] exI [of _ args] exI [of _ a] exI [of _ st]) simp
qed

text \<open>
  The two load scenarios of the spec: \<^verbatim>\<open>Foo\<close> from \<^verbatim>\<open>/libs\<close> with the native layer
  returning null and status 2, and \<^verbatim>\<open>Bar\<close> with the native layer returning 0x1000.
\<close>

theorem load_family_null_raises_else_wraps_witness:
  "fst (perform (sim_env 0 2) (Load ''Foo'' ''/libs'') world0) =
     Inl (Error ''Failed loading MonoAssembly! Error: MissingAssemblyRef'') \<and>
   events_since world0 (snd (perform (sim_env 0 2) (Load ''Foo'' ''/libs'') world0)) =
     [AllocUtf8String ''Foo'' 4096,
      NativeCall ''mono_assembly_name_new'' [VPointer 4096] 4096,
      Alloc 8 4100,
      AllocUtf8String ''/libs'' 4108,
      NativeCall ''mono_assembly_load'' [VPointer 4096, VPointer 4108, VPointer 4100] 0,
      ReadInt 4100] \<and>
   fst (perform (sim_env 4096 0) (Load ''Bar'' []) world0) = Inr (fromAddress 4096)"
  using load_family_null_raises_else_wraps [OF prod.collapse [symmetric],
      where env = "sim_env 0 2" and q = "Load ''Foo'' ''/libs''" and w = world0]
    load_family_null_raises_else_wraps [OF prod.collapse [symmetric],
      where env = "sim_env 4096 0" and q = "Load ''Bar'' []" and w = world0]
  by (simp add: run_defs sim_defs)

text \<open>
  C2, as stated, fails: the claim has the label of the error among the enumerated status
  labels for every integer in the status slot. With 99 in the slot the message ends in
  \<^verbatim>\<open>undefined\<close>, which is no member of the enumeration.
\<close>

theorem load_label_not_enumerated:
  "fst (load (sim_env 0 99) ''Foo'' ''/libs'' world0) =
     Inl (Error ''Failed loading MonoAssembly! Error: undefined'') \<and>
   MonoImageOpenStatus (sim_env 0 99) 99 = None \<and>
   ''undefined'' \<notin> ran (MonoImageOpenStatus (sim_env 0 99))"
proof -
  have "ran status_names = {''Ok'', ''Error'', ''MissingAssemblyRef''}"
    unfolding status_names_def by (subst ran_distinct) auto
  then show ?thesis
    by (simp add: run_defs sim_defs)
qed

text \<open>
  C2, amended. The run of a load ends with the method's own native call, and the trace
  replays on the runtime. Either that call returned an address \<open>a\<close> that is not null
  and the load returns a facade whose address is \<open>a\<close> (what every read of the address
  gives), or the call returned null, the status slot of this run is read, and the load
  raises an error whose message is the fixed prefix followed by the enumerated label of
  the integer in the slot when that integer is the value of a member of the
  enumeration, and by the text \<^verbatim>\<open>undefined\<close> for every other integer.
\<close>

theorem load_family_facade_or_error:
  assumes "perform env q w = (r, w')"
  shows "\<exists>pre args a.
    replay env (events_since w w') (mem w, native w) = Some (mem w', native w') \<and>
    ((events_since w w' = pre @ [NativeCall (native_symbol q) args a] \<and> a \<noteq> 0 \<and>
      r = Inr (fromAddress a) \<and> address (fromAddress a) = a) \<or>
     (\<exists>st. events_since w w' = pre @ [NativeCall (native_symbol q) args a, ReadInt st] \<and>
        a = 0 \<and> slots pre = [(pointerSize env, st)] \<and>
        r = Inl (Error (''Failed loading MonoAssembly! Error: '' @
              (case MonoImageOpenStatus env (sint (int32 (mem w') st)) of
                 Some l \<Rightarrow> l | None \<Rightarrow> ''undefined'')))))"
proof -
  from perform_run [OF assms] obtain pre args a st where
    ev: "events_since w w' =
      pre @ [NativeCall (native_symbol q) args a] @ (if a = 0 then [ReadInt st] else [])"
    and sl: "slots pre = [(pointerSize env, st)]"
    and r: "r = (if a = 0
         then Inl (Error (js_concat ''Failed loading MonoAssembly! Error: ''
                (index_enum (MonoImageOpenStatus env) (sint (int32 (mem w') st)))))
         else Inr (fromAddress a))"
    by blast
  note fa = perform_faithful [OF assms]
  show ?thesis
  proof (cases "a = 0")
    case True
    have "events_since w w' = pre @ [NativeCall (native_symbol q) args a, ReadInt st]"
      using ev True by simp
    moreover have "r = Inl (Error (''Failed loading MonoAssembly! Error: '' @
            (case MonoImageOpenStatus env (sint (int32 (mem w') st)) of
               Some l \<Rightarrow> l | None \<Rightarrow> ''undefined'')))"
      using r True by (simp add: index_enum_def split: option.splits)
    ultimately show ?thesis
      using fa sl True by (intro exI [of _ pre] exI [of _ args] exI [of _ a]) blast
  next
    case False
    have "events_since w w' = pre @ [NativeCall (native_symbol q) args a]"
      using ev False by simp
    moreover have "r = Inr (fromAddress a)" using r False by simp
    moreover have "address (fromAddress a) = a" by (simp add: fromAddress_def)
    ultimately show ?thesis
      using fa False by (intro exI [of _ pre] exI [of _ args] exI [of _ a]) blast
  qed
qed

theorem load_family_facade_or_error_witness:
  "fst (perform (sim_env 0 99) (LoadWithPartialName ''Foo'') world0) =
     Inl (Error ''Failed loading MonoAssembly! Error: undefined'') \<and>
   fst (perform (sim_env 0 1) (LoadFrom (fromAddress 512) ''Foo'') world0) =
     Inl (Error ''Failed loading MonoAssembly! Error: Error'') \<and>
   fst (perform (sim_env 4096 0) (LoadFull ''Bar'' [] True) world0) = Inr (fromAddress 4096) \<and>
   events_since world0 (snd (perform (sim_env 4096 0) (LoadFull ''Bar'' [] True) world0)) =
     [AllocUtf8String ''Bar'' 4096,
      NativeCall ''mono_assembly_name_new'' [VPointer 4096] 4096,
      Alloc 8 4100,
      AllocUtf8String [] 4108,
      NativeCall ''mono_assembly_load_full''
        [VPointer 4096, VPointer 4108, VPointer 4100, VBool True] 4096] \<and>
   address (fromAddress 4096) = 4096"
  using load_family_facade_or_error [OF prod.collapse [symmetric],
      where env = "sim_env 0 99" and q = "LoadWithPartialName ''Foo''" and w = world0]
    load_family_facade_or_error [OF prod.collapse [symmetric],
      where env = "sim_env 4096 0" and q = "LoadFull ''Bar'' [] True" and w = world0]
  by (simp add: run_defs sim_defs)

subsection \<open>Asking whether an assembly is loaded\<close>

lemma mono_sim_contract:
  "runtime_contract (mono_env disk) mono_aname_of mono_registry"
  unfolding runtime_contract_def
  by (auto simp: mono_env_def mono_sim_def mono_aname_of_def mono_registry_def fun_eq_iff
      split: option.splits if_splits)

text \<open>
  C3. Against every native runtime that keeps the contract of a registry of loaded
  assemblies, \<open>loaded name\<close> never raises and returns the facade of what the registry
  has for \<open>name\<close> when it is called. For a name that is not loaded (the registry has
  null for it) that is the facade of the null address, the representation of absent;
  for a name that is loaded it is a facade with the non-null address of the assembly.
  In particular, right after \<open>load name basedir\<close> has succeeded with a facade \<open>f\<close>,
  \<open>loaded name\<close> returns \<open>f\<close>, whose address is not null.
\<close>

theorem loaded_absent_or_present:
  assumes con: "runtime_contract env aname_of registry"
    and run: "loaded env name w = (r, w')"
  shows "r = Inr (fromAddress (registry (native w) name)) \<and>
    (registry (native w) name = 0 \<longrightarrow> r = Inr (fromAddress 0)) \<and>
    (registry (native w) name \<noteq> 0 \<longrightarrow>
       (\<exists>f. r = Inr f \<and> address f = registry (native w) name \<and> address f \<noteq> 0)) \<and>
    (\<forall>basedir w0 f. load env name basedir w0 = (Inr f, w) \<longrightarrow> address f \<noteq> 0 \<and> r = Inr f)"
proof -
  have N: "aname_of n' h = Some s \<and> registry n' = registry n"
    if "utf8 m p = Some s"
      and "runtime env ''mono_assembly_name_new'' [p] (m, n) = (h, (m', n'))"
    for p s m n h m' n'
    by (rule con [unfolded runtime_contract_def, THEN conjunct1, rule_format,
          OF conjI [OF that]])
  have L: "a = registry n s"
    if "aname_of n h = Some s"
      and "runtime env ''mono_assembly_loaded'' [h] (m, n) = (a, (m', n'))"
    for h s m n a m' n'
    by (rule con [unfolded runtime_contract_def, THEN conjunct2, THEN conjunct1, rule_format,
          OF conjI [OF that]])
  have LD: "registry n' s = a"
    if "aname_of n h = Some s" and "a \<noteq> 0"
      and "runtime env ''mono_assembly_load'' [h, pb, st] (m, n) = (a, (m', n'))"
    for h s pb st m n a m' n'
    by (rule con [unfolded runtime_contract_def, THEN conjunct2, THEN conjunct2, rule_format,
          OF conjI [OF that(1) conjI [OF that(2) that(3)]]])
  from loaded_run [OF run] obtain aname a where
    tr: "trace w' = trace w @
      [AllocUtf8String name (brk w),
       NativeCall ''mono_assembly_name_new'' [VPointer (brk w)] aname,
       NativeCall ''mono_assembly_loaded'' [VPointer aname] a]"
    and r: "r = Inr (fromAddress a)"
    by blast
  from loaded_faithful [OF run] have rp: "replay env
      [AllocUtf8String name (brk w),
       NativeCall ''mono_assembly_name_new'' [VPointer (brk w)] aname,
       NativeCall ''mono_assembly_loaded'' [VPointer aname] a] (mem w, native w) =
      Some (mem w', native w')"
    by (simp add: faithful_def events_since_append [OF tr])
  define m1 where "m1 = (mem w)\<lparr>utf8 := (utf8 (mem w))(brk w \<mapsto> name)\<rparr>"
  obtain h1 m2 n2 where
    c1: "runtime env ''mono_assembly_name_new'' [brk w] (m1, native w) = (h1, (m2, n2))"
    by (metis prod.exhaust)
  obtain a' m3 n3 where
    c2: "runtime env ''mono_assembly_loaded'' [aname] (m2, n2) = (a', (m3, n3))"
    by (metis prod.exhaust)
  from rp c1 [unfolded m1_def] c2 have h1: "h1 = aname" and a': "a' = a"
    by (simp_all split: if_splits)
  have "utf8 m1 (brk w) = Some name" by (simp add: m1_def)
  from N [OF this c1] have an: "aname_of n2 aname = Some name"
    and rg: "registry n2 = registry (native w)"
    by (simp_all add: h1)
  from L [OF an c2] have a: "a = registry (native w) name"
    by (simp add: a' rg)
  have ld: "\<forall>basedir w0 f. load env name basedir w0 = (Inr f, w) \<longrightarrow> address f \<noteq> 0 \<and> r = Inr f"
  proof (intro allI impI)
    fix basedir w0 f
    assume A: "load env name basedir w0 = (Inr f, w)"
    from load_run [OF A] obtain aname0 a0 where
      tr0: "trace w = trace w0 @
        [AllocUtf8String name (brk w0),
         NativeCall ''mono_assembly_name_new'' [VPointer (brk w0)] aname0,
         Alloc (pointerSize env) (brk w0 + length name + 1),
         AllocUtf8String basedir (brk w0 + length name + 1 + pointerSize env),
         NativeCall ''mono_assembly_load''
           [VPointer aname0, VPointer (brk w0 + length name + 1 + pointerSize env),
            VPointer (brk w0 + length name + 1)] a0] @
        (if a0 = 0 then [ReadInt (brk w0 + length name + 1)] else [])"
      and r0: "Inr f = (if a0 = 0
           then Inl (Error (js_concat ''Failed loading MonoAssembly! Error: ''
                  (index_enum (MonoImageOpenStatus env)
                     (sint (int32 (mem w) (brk w0 + length name + 1))))))
           else Inr (fromAddress a0))"
      by blast
    from r0 have a0: "a0 \<noteq> 0" and f: "f = fromAddress a0"
      by (auto split: if_splits)
    from load_faithful [OF A] have rp0: "replay env
        [AllocUtf8String name (brk w0),
         NativeCall ''mono_assembly_name_new'' [VPointer (brk w0)] aname0,
         Alloc (pointerSize env) (brk w0 + length name + 1),
         AllocUtf8String basedir (brk w0 + length name + 1 + pointerSize env),
         NativeCall ''mono_assembly_load''
           [VPointer aname0, VPointer (brk w0 + length name + 1 + pointerSize env),
            VPointer (brk w0 + length name + 1)] a0] (mem w0, native w0) =
        Some (mem w, native w)"
      using a0 by (simp add: faithful_def events_since_append [OF tr0])
    define k1 where "k1 = (mem w0)\<lparr>utf8 := (utf8 (mem w0))(brk w0 \<mapsto> name)\<rparr>"
    obtain g1 k2 j2 where
      d1: "runtime env ''mono_assembly_name_new'' [brk w0] (k1, native w0) = (g1, (k2, j2))"
      by (metis prod.exhaust)
    define k3 where
      "k3 = k2\<lparr>utf8 := (utf8 k2)(brk w0 + length name + 1 + pointerSize env \<mapsto> basedir)\<rparr>"
    obtain b k4 j4 where
      d2: "runtime env ''mono_assembly_load''
            [aname0, brk w0 + length name + 1 + pointerSize env, brk w0 + length name + 1]
            (k3, j2) = (b, (k4, j4))"
      by (metis prod.exhaust)
    from rp0 d1 [unfolded k1_def] d2 [unfolded k3_def]
    have g1: "g1 = aname0" and b: "b = a0" and j4: "j4 = native w"
      by (simp_all split: if_splits)
    have "utf8 k1 (brk w0) = Some name" by (simp add: k1_def)
    from N [OF this d1] have "aname_of j2 aname0 = Some name"
      by (simp add: g1)
    from LD [OF this _ d2] a0 have "registry (native w) name = a0"
      by (simp add: b j4)
    with a r f a0 show "address f \<noteq> 0 \<and> r = Inr f"
      by (simp add: fromAddress_def)
  qed
  from a r ld show ?thesis
    by (auto simp: fromAddress_def)
qed

text \<open>
  The registry layer with \<^verbatim>\<open>Bar\<close> on disk at 0x1000 and nothing loaded answers
  absent for \<^verbatim>\<open>Baz\<close>; after the successful load of \<^verbatim>\<open>Bar\<close> it answers 0x1000 for
  \<^verbatim>\<open>Bar\<close> and still absent for \<^verbatim>\<open>Baz\<close>.
\<close>

theorem loaded_absent_or_present_witness:
  "fst (loaded (mono_env [(''Bar'', 4096)]) ''Baz'' mono_world0) = Inr (fromAddress 0) \<and>
   fst (load (mono_env [(''Bar'', 4096)]) ''Bar'' [] mono_world0) = Inr (fromAddress 4096) \<and>
   fst (loaded (mono_env [(''Bar'', 4096)]) ''Bar''
         (snd (load (mono_env [(''Bar'', 4096)]) ''Bar'' [] mono_world0))) =
     Inr (fromAddress 4096) \<and>
   fst (loaded (mono_env [(''Bar'', 4096)]) ''Baz''
         (snd (load (mono_env [(''Bar'', 4096)]) ''Bar'' [] mono_world0))) =
     Inr (fromAddress 0)"
  using loaded_absent_or_present [OF mono_sim_contract [of "[(''Bar'', 4096)]"] prod.collapse [symmetric],
      where name = "''Baz''" and w = mono_world0]
    loaded_absent_or_present [OF mono_sim_contract [of "[(''Bar'', 4096)]"] prod.collapse [symmetric],
      where name = "''Bar''"
        and w = "snd (load (mono_env [(''Bar'', 4096)]) ''Bar'' [] mono_world0)"]
  by (simp add: run_defs mono_defs)

text \<open>
  C10. \<open>loaded\<close> always returns a facade, never a host-language null: its run is the
  encoding of the name, the conversion of the name and the call of
  \<^verbatim>\<open>mono_assembly_loaded\<close>, and its result is \<open>fromAddress\<close> of the returned address, also
  when that address is null (the caller finds absence in the facade's address). The run
  allocates no status slot and reads no status.
\<close>

theorem loaded_wraps_returned_address:
  assumes "loaded env name w = (r, w')"
  shows "\<exists>aname a.
    events_since w w' =
      [AllocUtf8String name (brk w),
       NativeCall ''mono_assembly_name_new'' [VPointer (brk w)] aname,
       NativeCall ''mono_assembly_loaded'' [VPointer aname] a] \<and>
    r = Inr (fromAddress a) \<and> address (fromAddress a) = a \<and>
    slots (events_since w w') = [] \<and> status_reads (events_since w w') = []"
proof -
  from loaded_run [OF assms] obtain aname a where
    tr: "trace w' = trace w @
      [AllocUtf8String name (brk w),
       NativeCall ''mono_assembly_name_new'' [VPointer (brk w)] aname,
       NativeCall ''mono_assembly_loaded'' [VPointer aname] a]"
    and r: "r = Inr (fromAddress a)"
    by blast
  note ev = events_since_append [OF tr]
  show ?thesis
    by (intro exI [of _ aname] exI [of _ a]) (simp add: ev r fromAddress_def)
qed

theorem loaded_wraps_returned_address_witness:
  "fst (loaded (sim_env 0 0) ''Baz'' world0) = Inr \<lparr>address = 0\<rparr> \<and>
   events_since world0 (snd (loaded (sim_env 0 0) ''Baz'' world0)) =
     [AllocUtf8String ''Baz'' 4096,
      NativeCall ''mono_assembly_name_new'' [VPointer 4096] 4096,
      NativeCall ''mono_assembly_loaded'' [VPointer 4096] 0] \<and>
   slots (events_since world0 (snd (loaded (sim_env 0 0) ''Baz'' world0))) = [] \<and>
   status_reads (events_since world0 (snd (loaded (sim_env 0 0) ''Baz'' world0))) = []"
  using loaded_wraps_returned_address [OF prod.collapse [symmetric],
      where env = "sim_env 0 0" and name = "''Baz''" and w = world0]
  by (simp add: run_defs sim_defs)

subsection \<open>Facades and their addresses\<close>

text \<open>
  C4. For every address \<open>a\<close>, null and addresses of nothing included, reading the
  address of \<open>fromAddress a\<close> gives \<open>a\<close>. \<open>fromAddress\<close> is a function of the address
  alone: it has no world to call the native runtime in and no branch that rejects an
  address.
\<close>

theorem fromAddress_address:
  "address (fromAddress a) = a"
  by (simp add: fromAddress_def)

theorem fromAddress_address_witness:
  "address (fromAddress 0) = 0 \<and> address (fromAddress 3735928559) = 3735928559"
  using fromAddress_address [of 0] fromAddress_address [of 3735928559]
  by simp

text \<open>
  C5. Two facades made by \<open>fromAddress\<close> have equal addresses exactly when they were made
  from equal addresses, and then they are the same value, so that every observation
  \<open>obs\<close> of a facade (\<open>close\<close> among them) gives the same on both.
\<close>

theorem fromAddress_equal_iff:
  "((address (fromAddress a) = address (fromAddress b)) = (a = b)) \<and>
   ((fromAddress a = fromAddress b) = (a = b)) \<and>
   (a = b \<longrightarrow> obs (fromAddress a) = obs (fromAddress b))"
  by (simp add: fromAddress_def)

theorem fromAddress_equal_iff_witness:
  "address (fromAddress 4096) = address (fromAddress (4000 + 96)) \<and>
   fromAddress 4096 \<noteq> fromAddress 8192 \<and>
   events_since world0 (snd (close (sim_env 0 0) (fromAddress (4000 + 96)) world0)) =
     [NativeCall ''mono_assembly_close'' [VPointer 4096] 0]"
  using fromAddress_equal_iff [of 4096 "4000 + 96"
      "\<lambda>f. events_since world0 (snd (close (sim_env 0 0) f world0))"]
    fromAddress_equal_iff [of 4096 8192 "\<lambda>f. f"]
  by (simp add: run_defs sim_defs)

subsection \<open>The status lookup\<close>

text \<open>
  C6, as stated, fails: decoding is claimed to yield a label for every integer. For 99,
  which is the value of no member, the lookup yields \<^verbatim>\<open>undefined\<close> and no label.
\<close>

theorem index_enum_no_label:
  "index_enum status_names 99 = JSUndefined \<and>
   index_enum status_names 2 = JSString ''MissingAssemblyRef''"
  by (simp add: index_enum_def status_names_def)

text \<open>
  C6, amended. The status lookup is a total mapping without failure: for the value of
  a member it yields the member's label; for every other integer it yields no label
  but \<^verbatim>\<open>undefined\<close>, which differs from what the lookup yields for every member and
  which an error message renders as the text \<^verbatim>\<open>undefined\<close>.
\<close>

theorem index_enum_total:
  "(case e n of
      Some l \<Rightarrow> index_enum e n = JSString l \<and> js_concat s (index_enum e n) = s @ l
    | None \<Rightarrow> index_enum e n = JSUndefined \<and>
        js_concat s (index_enum e n) = s @ ''undefined'' \<and>
        (\<forall>m l. e m = Some l \<longrightarrow> index_enum e m \<noteq> index_enum e n))"
  by (auto simp: index_enum_def split: option.splits)

theorem index_enum_total_witness:
  "index_enum status_names 2 = JSString ''MissingAssemblyRef'' \<and>
   js_concat ''Error: '' (index_enum status_names 2) = ''Error: MissingAssemblyRef'' \<and>
   js_concat ''Error: '' (index_enum status_names (- 1)) = ''Error: undefined'' \<and>
   index_enum status_names 0 \<noteq> index_enum status_names (- 1)"
  using index_enum_total [of status_names 2 "''Error: ''"]
    index_enum_total [of status_names "- 1" "''Error: ''"]
  by (simp add: index_enum_def status_names_def)

subsection \<open>Releasing a reference\<close>

text \<open>
  C9. \<open>close\<close> invokes the native runtime exactly once: the world after it is the world
  before it with memory and native state as \<^verbatim>\<open>mono_assembly_close\<close>, applied to the
  facade's own address, leaves them, and with that one call added to the trace; nothing
  is allocated. The call of \<open>close\<close> evaluates to \<^verbatim>\<open>undefined\<close>, and the facade is as
  it was, so its address reads the same before and after.
\<close>

theorem close_one_native_call:
  assumes "close env this w = (ret, w')"
  shows "\<exists>x.
    runtime env ''mono_assembly_close'' [address this] (mem w, native w) =
      (x, (mem w', native w')) \<and>
    events_since w w' = [NativeCall ''mono_assembly_close'' [VPointer (address this)] x] \<and>
    ret = (JSUndefined, this) \<and> address (snd ret) = address this \<and> brk w' = brk w"
proof -
  from close_run(1) [OF assms] obtain x where
    tr: "trace w' = trace w @ [NativeCall ''mono_assembly_close'' [VPointer (address this)] x]"
    and rt: "runtime env ''mono_assembly_close'' [address this] (mem w, native w) =
      (x, (mem w', native w'))"
    by blast
  from rt events_since_append [OF tr] close_run(2,3) [OF assms] show ?thesis
    by (intro exI [of _ x]) simp
qed

text \<open>
  Against the registry layer, which records what is released: after \<open>close\<close> on the
  facade of 0x1000 the runtime has released 0x1000, once.
\<close>

theorem close_one_native_call_witness:
  "fst (close (mono_env []) (fromAddress 4096) mono_world0) = (JSUndefined, fromAddress 4096) \<and>
   events_since mono_world0 (snd (close (mono_env []) (fromAddress 4096) mono_world0)) =
     [NativeCall ''mono_assembly_close'' [VPointer 4096] 0] \<and>
   released (native (snd (close (mono_env []) (fromAddress 4096) mono_world0))) = [4096] \<and>
   address (snd (fst (close (mono_env []) (fromAddress 4096) mono_world0))) = 4096"
  using close_one_native_call [OF prod.collapse [symmetric],
      where env = "mono_env []" and this = "fromAddress 4096" and w = mono_world0]
  by (simp add: run_defs mono_defs)

subsection \<open>Scratch memory of a load\<close>

text \<open>
  C7. Every invocation of a method of the load family, from whatever world it starts
  (so also after earlier invocations, and whether or not the host has reclaimed their
  memory), does its own allocating: before the method's native call it encodes each
  string input once with \<open>Memory_allocUtf8String\<close> (a null-terminated UTF-8 buffer) and
  allocates one status slot of the size of a pointer. Each buffer so encoded is handed
  to a native call of this invocation as a pointer argument and holds its string at the
  moment of that call, and the slot is handed to the method's own call. Every pointer
  that the invocation passes or reads was handed out by an allocation, or returned by a
  native call, earlier in this same invocation (or is the address of the image facade
  it was given): no buffer of another invocation is used again. No status is read
  before the method's call, and the slot is read after it exactly when the call
  returned null. The trace replays on the runtime.
\<close>

theorem load_family_own_scratch:
  assumes "perform env q w = (r, w')"
  shows "\<exists>pre args a st.
    events_since w w' =
      pre @ [NativeCall (native_symbol q) args a] @ (if a = 0 then [ReadInt st] else []) \<and>
    encoded pre = string_inputs q \<and>
    slots pre = [(pointerSize env, st)] \<and>
    status_reads pre = [] \<and>
    VPointer st \<in> set args \<and>
    (\<forall>(s, p) \<in> set (encodings pre).
       (p, Some s) \<in> set (delivered env (events_since w w') (mem w, native w))) \<and>
    scoped (handle_inputs q) (events_since w w') \<and>
    replay env (events_since w w') (mem w, native w) = Some (mem w', native w')"
proof -
  from perform_run [OF assms] obtain pre args a st where
    "events_since w w' =
      pre @ [NativeCall (native_symbol q) args a] @ (if a = 0 then [ReadInt st] else [])"
    "encoded pre = string_inputs q"
    "slots pre = [(pointerSize env, st)]"
    "status_reads pre = []"
    "VPointer st \<in> set args"
    "\<forall>(s, p) \<in> set (encodings pre).
       (p, Some s) \<in> set (delivered env (events_since w w') (mem w, native w))"
    "scoped (handle_inputs q) (events_since w w')"
    "replay env (events_since w w') (mem w, native w) = Some (mem w', native w')"
    by blast
  then show ?thesis
    by (intro exI [of _ pre] exI [of _ args] exI [of _ a] exI [of _ st]) blast
qed

text \<open>
  A load of \<^verbatim>\<open>Foo\<close> from \<^verbatim>\<open>/libs\<close> on a 64-bit process against the registry layer
  with an empty disk, and the same load again from the world it leaves with the
  allocator's mark set back to where it stood: the second invocation is handed the
  addresses of the first and still encodes and allocates everything itself.
\<close>

theorem load_family_own_scratch_witness:
  "events_since mono_world0 (snd (perform (mono_env []) (Load ''Foo'' ''/libs'') mono_world0)) =
     [AllocUtf8String ''Foo'' 4096,
      NativeCall ''mono_assembly_name_new'' [VPointer 4096] 65536,
      Alloc 8 4100,
      AllocUtf8String ''/libs'' 4108] @
     [NativeCall ''mono_assembly_load'' [VPointer 65536, VPointer 4108, VPointer 4100] 0] @
     [ReadInt 4100] \<and>
   delivered (mono_env [])
     (events_since mono_world0 (snd (perform (mono_env []) (Load ''Foo'' ''/libs'') mono_world0)))
     (mem mono_world0, native mono_world0) =
     [(4096, Some ''Foo''), (65536, None), (4108, Some ''/libs''), (4100, None)] \<and>
   scoped []
     (events_since mono_world0 (snd (perform (mono_env []) (Load ''Foo'' ''/libs'') mono_world0))) \<and>
   events_since
     ((snd (perform (mono_env []) (Load ''Foo'' ''/libs'') mono_world0))\<lparr>brk := 4096\<rparr>)
     (snd (perform (mono_env []) (Load ''Foo'' ''/libs'')
        ((snd (perform (mono_env []) (Load ''Foo'' ''/libs'') mono_world0))\<lparr>brk := 4096\<rparr>))) =
     [AllocUtf8String ''Foo'' 4096,
      NativeCall ''mono_assembly_name_new'' [VPointer 4096] 65537,
      Alloc 8 4100,
      AllocUtf8String ''/libs'' 4108] @
     [NativeCall ''mono_assembly_load'' [VPointer 65537, VPointer 4108, VPointer 4100] 0] @
     [ReadInt 4100]"
  using load_family_own_scratch [OF prod.collapse [symmetric],
      where env = "mono_env []" and q = "Load ''Foo'' ''/libs''" and w = mono_world0]
    load_family_own_scratch [OF prod.collapse [symmetric],
      where env = "mono_env []" and q = "Load ''Foo'' ''/libs''"
        and w = "(snd (perform (mono_env []) (Load ''Foo'' ''/libs'') mono_world0))\<lparr>brk := 4096\<rparr>"]
  by (simp add: run_defs mono_defs)

subsection \<open>The control skeleton of the six variants\<close>

text \<open>
  C8, as stated, fails: the skeleton claimed for all six variants has the allocation
  of a status slot. A run of \<open>loaded\<close> allocates none (and reads no status), where a
  run of \<open>loadWithPartialName\<close> against the same native layer does both.
\<close>

theorem loaded_skeleton_without_slot:
  "skeleton world0 (snd (loaded (sim_env 0 0) ''Baz'' world0)) =
     [Encode, Invoke ''mono_assembly_name_new'' [], Invoke ''mono_assembly_loaded'' []] \<and>
   Slot \<notin> set (skeleton world0 (snd (loaded (sim_env 0 0) ''Baz'' world0))) \<and>
   skeleton world0 (snd (loadWithPartialName (sim_env 0 0) ''Baz'' world0)) =
     [Slot, Encode, Invoke ''mono_assembly_load_with_partial_name'' [], ReadStatus]"
  by (simp add: run_defs sim_defs)

text \<open>
  C8, amended. The five load variants follow one skeleton: the string inputs are
  encoded and one status slot is allocated (the slot between the two strings in
  \<open>load\<close> and \<open>loadFull\<close>, before the string in the other three), then the variant's own
  native symbol is invoked, with the flag \<open>refOnly\<close> forwarded by the two
  \<^verbatim>\<open>Full\<close> variants, and then the status is read and an error raised exactly when
  that call returned null. \<open>load\<close> and \<open>loadFull\<close> also convert the encoded name
  with \<^verbatim>\<open>mono_assembly_name_new\<close> first. The is-already-loaded variant encodes and
  converts its name and invokes its symbol, but allocates no status slot and never
  raises, whatever address the call returned.
\<close>

theorem variant_skeletons:
  "(load env name basedir w = (r, w') \<longrightarrow>
      skeleton w w' =
        [Encode, Invoke ''mono_assembly_name_new'' [], Slot, Encode,
         Invoke ''mono_assembly_load'' []] @ (if isl r then [ReadStatus] else []) \<and>
      isl r = (last (returned (events_since w w')) = 0)) \<and>
   (loadFull env name basedir refOnly w = (r, w') \<longrightarrow>
      skeleton w w' =
        [Encode, Invoke ''mono_assembly_name_new'' [], Slot, Encode,
         Invoke ''mono_assembly_load_full'' [refOnly]] @ (if isl r then [ReadStatus] else []) \<and>
      isl r = (last (returned (events_since w w')) = 0)) \<and>
   (loadFrom env img name w = (r, w') \<longrightarrow>
      skeleton w w' =
        [Slot, Encode, Invoke ''mono_assembly_load_from'' []] @
        (if isl r then [ReadStatus] else []) \<and>
      isl r = (last (returned (events_since w w')) = 0)) \<and>
   (loadFromFull env img name refOnly w = (r, w') \<longrightarrow>
      skeleton w w' =
        [Slot, Encode, Invoke ''mono_assembly_load_from_full'' [refOnly]] @
        (if isl r then [ReadStatus] else []) \<and>
      isl r = (last (returned (events_since w w')) = 0)) \<and>
   (loadWithPartialName env name w = (r, w') \<longrightarrow>
      skeleton w w' =
        [Slot, Encode, Invoke ''mono_assembly_load_with_partial_name'' []] @
        (if isl r then [ReadStatus] else []) \<and>
      isl r = (last (returned (events_since w w')) = 0)) \<and>
   (loaded env name w = (r, w') \<longrightarrow>
      skeleton w w' =
        [Encode, Invoke ''mono_assembly_name_new'' [], Invoke ''mono_assembly_loaded'' []] \<and>
      \<not> isl r \<and>
      r = Inr (fromAddress (last (returned (events_since w w')))))"
proof (intro conjI impI)
  assume "load env name basedir w = (r, w')"
  from load_run [OF this] obtain aname a where
    tr: "trace w' = trace w @
      [AllocUtf8String name (brk w),
       NativeCall ''mono_assembly_name_new'' [VPointer (brk w)] aname,
       Alloc (pointerSize env) (brk w + length name + 1),
       AllocUtf8String basedir (brk w + length name + 1 + pointerSize env),
       NativeCall ''mono_assembly_load''
         [VPointer aname, VPointer (brk w + length name + 1 + pointerSize env),
          VPointer (brk w + length name + 1)] a] @
      (if a = 0 then [ReadInt (brk w + length name + 1)] else [])"
    and r: "r = (if a = 0
         then Inl (Error (js_concat ''Failed loading MonoAssembly! Error: ''
                (index_enum (MonoImageOpenStatus env)
                   (sint (int32 (mem w') (brk w + length name + 1))))))
         else Inr (fromAddress a))"
    by blast
  note ev = events_since_append [OF tr]
  show "skeleton w w' =
        [Encode, Invoke ''mono_assembly_name_new'' [], Slot, Encode,
         Invoke ''mono_assembly_load'' []] @ (if isl r then [ReadStatus] else [])"
    by (simp add: skeleton_def ev r)
  show "isl r = (last (returned (events_since w w')) = 0)"
    by (simp add: ev r)
next
  assume "loadFull env name basedir refOnly w = (r, w')"
  from loadFull_run [OF this] obtain aname a where
    tr: "trace w' = trace w @
      [AllocUtf8String name (brk w),
       NativeCall ''mono_assembly_name_new'' [VPointer (brk w)] aname,
       Alloc (pointerSize env) (brk w + length name + 1),
       AllocUtf8String basedir (brk w + length name + 1 + pointerSize env),
       NativeCall ''mono_assembly_load_full''
         [VPointer aname, VPointer (brk w + length name + 1 + pointerSize env),
          VPointer (brk w + length name + 1), VBool refOnly] a] @
      (if a = 0 then [ReadInt (brk w + length name + 1)] else [])"
    and r: "r = (if a = 0
         then Inl (Error (js_concat ''Failed loading MonoAssembly! Error: ''
                (index_enum (MonoImageOpenStatus env)
                   (sint (int32 (mem w') (brk w + length name + 1))))))
         else Inr (fromAddress a))"
    by blast
  note ev = events_since_append [OF tr]
  show "skeleton w w' =
        [Encode, Invoke ''mono_assembly_name_new'' [], Slot, Encode,
         Invoke ''mono_assembly_load_full'' [refOnly]] @ (if isl r then [ReadStatus] else [])"
    by (simp add: skeleton_def ev r)
  show "isl r = (last (returned (events_since w w')) = 0)"
    by (simp add: ev r)
next
  assume "loadFrom env img name w = (r, w')"
  from loadFrom_run [OF this] obtain a where
    tr: "trace w' = trace w @
      [Alloc (pointerSize env) (brk w),
       AllocUtf8String name (brk w + pointerSize env),
       NativeCall ''mono_assembly_load_from''
         [VPointer (address img), VPointer (brk w + pointerSize env), VPointer (brk w)] a] @
      (if a = 0 then [ReadInt (brk w)] else [])"
    and r: "r = (if a = 0
         then Inl (Error (js_concat ''Failed loading MonoAssembly! Error: ''
                (index_enum (MonoImageOpenStatus env) (sint (int32 (mem w') (brk w))))))
         else Inr (fromAddress a))"
    by blast
  note ev = events_since_append [OF tr]
  show "skeleton w w' =
        [Slot, Encode, Invoke ''mono_assembly_load_from'' []] @
        (if isl r then [ReadStatus] else [])"
    by (simp add: skeleton_def ev r)
  show "isl r = (last (returned (events_since w w')) = 0)"
    by (simp add: ev r)
next
  assume "loadFromFull env img name refOnly w = (r, w')"
  from loadFromFull_run [OF this] obtain a where
    tr: "trace w' = trace w @
      [Alloc (pointerSize env) (brk w),
       AllocUtf8String name (brk w + pointerSize env),
       NativeCall ''mono_assembly_load_from_full''
         [VPointer (address img), VPointer (brk w + pointerSize env), VPointer (brk w),
          VBool refOnly] a] @
      (if a = 0 then [ReadInt (brk w)] else [])"
    and r: "r = (if a = 0
         then Inl (Error (js_concat ''Failed loading MonoAssembly! Error: ''
                (index_enum (MonoImageOpenStatus env) (sint (int32 (mem w') (brk w))))))
         else Inr (fromAddress a))"
    by blast
  note ev = events_since_append [OF tr]
  show "skeleton w w' =
        [Slot, Encode, Invoke ''mono_assembly_load_from_full'' [refOnly]] @
        (if isl r then [ReadStatus] else [])"
    by (simp add: skeleton_def ev r)
  show "isl r = (last (returned (events_since w w')) = 0)"
    by (simp add: ev r)
next
  assume "loadWithPartialName env name w = (r, w')"
  from loadWithPartialName_run [OF this] obtain a where
    tr: "trace w' = trace w @
      [Alloc (pointerSize env) (brk w),
       AllocUtf8String name (brk w + pointerSize env),
       NativeCall ''mono_assembly_load_with_partial_name''
         [VPointer (brk w + pointerSize env), VPointer (brk w)] a] @
      (if a = 0 then [ReadInt (brk w)] else [])"
    and r: "r = (if a = 0
         then Inl (Error (js_concat ''Failed loading MonoAssembly! Error: ''
                (index_enum (MonoImageOpenStatus env) (sint (int32 (mem w') (brk w))))))
         else Inr (fromAddress a))"
    by blast
  note ev = events_since_append [OF tr]
  show "skeleton w w' =
        [Slot, Encode, Invoke ''mono_assembly_load_with_partial_name'' []] @
        (if isl r then [ReadStatus] else [])"
    by (simp add: skeleton_def ev r)
  show "isl r = (last (returned (events_since w w')) = 0)"
    by (simp add: ev r)
next
  assume "loaded env name w = (r, w')"
  from loaded_run [OF this] obtain aname a where
    tr: "trace w' = trace w @
      [AllocUtf8String name (brk w),
       NativeCall ''mono_assembly_name_new'' [VPointer (brk w)] aname,
       NativeCall ''mono_assembly_loaded'' [VPointer aname] a]"
    and r: "r = Inr (fromAddress a)"
    by blast
  note ev = events_since_append [OF tr]
  show "skeleton w w' =
        [Encode, Invoke ''mono_assembly_name_new'' [], Invoke ''mono_assembly_loaded'' []]"
    by (simp add: skeleton_def ev)
  show "\<not> isl r"
    by (simp add: r)
  show "r = Inr (fromAddress (last (returned (events_since w w'))))"
    by (simp add: ev r)
qed

theorem variant_skeletons_witness:
  "skeleton world0 (snd (load (sim_env 0 2) ''Foo'' ''/libs'' world0)) =
     [Encode, Invoke ''mono_assembly_name_new'' [], Slot, Encode,
      Invoke ''mono_assembly_load'' [], ReadStatus] \<and>
   skeleton world0 (snd (loadFull (sim_env 4096 0) ''Bar'' [] True world0)) =
     [Encode, Invoke ''mono_assembly_name_new'' [], Slot, Encode,
      Invoke ''mono_assembly_load_full'' [True]] \<and>
   skeleton world0 (snd (loadFrom (sim_env 4096 0) (fromAddress 512) ''Bar'' world0)) =
     [Slot, Encode, Invoke ''mono_assembly_load_from'' []] \<and>
   skeleton world0 (snd (loadFromFull (sim_env 0 1) (fromAddress 512) ''Bar'' False world0)) =
     [Slot, Encode, Invoke ''mono_assembly_load_from_full'' [False], ReadStatus] \<and>
   skeleton world0 (snd (loadWithPartialName (sim_env 4096 0) ''Bar'' world0)) =
     [Slot, Encode, Invoke ''mono_assembly_load_with_partial_name'' []] \<and>
   skeleton world0 (snd (loaded (sim_env 4096 0) ''Bar'' world0)) =
     [Encode, Invoke ''mono_assembly_name_new'' [], Invoke ''mono_assembly_loaded'' []]"
  using variant_skeletons [where env = "sim_env 0 2" and name = "''Foo''"
      and basedir = "''/libs''" and w = world0
      and r = "fst (load (sim_env 0 2) ''Foo'' ''/libs'' world0)"
      and w' = "snd (load (sim_env 0 2) ''Foo'' ''/libs'' world0)"]
    variant_skeletons [where env = "sim_env 4096 0" and name = "''Bar''"
      and basedir = "[]" and refOnly = True and w = world0
      and r = "fst (loadFull (sim_env 4096 0) ''Bar'' [] True world0)"
      and w' = "snd (loadFull (sim_env 4096 0) ''Bar'' [] True world0)"]
    variant_skeletons [where env = "sim_env 4096 0" and name = "''Bar''"
      and img = "fromAddress 512" and w = world0
      and r = "fst (loadFrom (sim_env 4096 0) (fromAddress 512) ''Bar'' world0)"
      and w' = "snd (loadFrom (sim_env 4096 0) (fromAddress 512) ''Bar'' world0)"]
    variant_skeletons [where env = "sim_env 0 1" and name = "''Bar''"
      and img = "fromAddress 512" and refOnly = False and w = world0
      and r = "fst (loadFromFull (sim_env 0 1) (fromAddress 512) ''Bar'' False world0)"
      and w' = "snd (loadFromFull (sim_env 0 1) (fromAddress 512) ''Bar'' False world0)"]
    variant_skeletons [where env = "sim_env 4096 0" and name = "''Bar''" and w = world0
      and r = "fst (loadWithPartialName (sim_env 4096 0) ''Bar'' world0)"
      and w' = "snd (loadWithPartialName (sim_env 4096 0) ''Bar'' world0)"]
    variant_skeletons [where env = "sim_env 4096 0" and name = "''Bar''" and w = world0
      and r = "fst (loaded (sim_env 4096 0) ''Bar'' world0)"
      and w' = "snd (loaded (sim_env 4096 0) ''Bar'' world0)"]
  by (simp add: run_defs sim_defs)

end
